theory Spec2Isabelle
  imports Main
begin

section \<open>Values, exceptions and messages\<close>

text \<open>
  The repository drives the pandas library from a notebook form. pandas itself is
  not part of the repository: every pandas call of the source is a field of the
  record \<open>pandas\<close> below, over an arbitrary type \<open>'df\<close> of table values, \<open>'ser\<close> of
  column values and \<open>'f\<close> of floats, and all theorems hold for every such library.
  DataFrame objects live in a store (a list of table values, an address is an
  index): \<open>df.copy()\<close> allocates a new object with the same value, an assignment
  \<open>self.df[col] = ...\<close> or a call with \<open>inplace=True\<close> overwrites the object, and
  \<open>self.df = ...\<close> binds the field to another object.
\<close>

type_synonym addr = nat
type_synonym shape = "nat \<times> nat"

datatype 'f pyval = PyInt int | PyFloat 'f | PyStr string

text \<open>The values of the \<open>keep\<close> argument: 'first', 'last', False, or any other string.\<close>

datatype keep = KeepFirst | KeepLast | KeepFalse | KeepOther string

text \<open>What \<open>json.loads\<close> returns: a dict from strings to strings, or anything else.\<close>

datatype json = JsonDict "(string \<times> string) list" | JsonOther

datatype exn_class =
  KeyError | ValueError | AttributeError | NameError | ImportError | JSONDecodeError | OtherError

text \<open>The text of an exception (\<open>str(e)\<close>), one constructor for each message of the source.\<close>

datatype reason =
    ColumnNotFound string
  | ColumnsNotFound "string list"
  | RenameColumnsNotFound "string list"
  | SelectColumnsNotFound "string list"
  | UnsupportedStrategy string
  | FillValueRequired
  | UnsupportedType string
  | ConversionFailed string string reason
  | NotADataFrame
  | UnsupportedFormat string
  | NoAttribute string
  | Unbound string
  | LibraryText string

datatype exn = Exn exn_class reason

fun exn_class_of :: "exn \<Rightarrow> exn_class" where
  "exn_class_of (Exn c r) = c"

fun str_of :: "exn \<Rightarrow> reason" where
  "str_of (Exn c r) = r"

datatype 'f strategy_desc =
    DescFfill | DescBfill | DescDropRows int | DescDropCols int | DescInterpolate string
  | DescConstant "'f pyval" | DescMean | DescMedian | DescZero

text \<open>The messages of \<open>DataFrameProcessor._log\<close>, one constructor for each f-string.\<close>

datatype 'f proc_msg =
    Created shape
  | DatetimeIndexSet string
  | ShapeChanged shape shape
  | DatetimeIndexError reason
  | MissingHandled "string list option" "'f strategy_desc"
  | MissingCounts nat nat
  | MissingError reason
  | ColumnSkipped string
  | TypeConverted string string string
  | ConversionSkipped string string reason
  | ConversionError reason
  | DuplicatesRemoved int "string list option" keep
  | DuplicatesError reason
  | Renamed "(string \<times> string) list"
  | RenameError reason
  | ColumnsKept "string list"
  | ColumnsRemoved "string set"
  | SelectError reason
  | CustomShapeChanged shape shape
  | CustomDtypesChanged "(string \<times> string \<times> string) set"
  | ColumnsAdded "string set"
  | CustomApplied
  | CustomError reason
  | ProcessedReturned shape

text \<open>The sections of the click handler, and what it prints itself.\<close>

datatype call =
    Init | SetDatetimeIndex | HandleMissingValues | ConvertDataTypes | RemoveDuplicateRows
  | RenameColumns | SelectColumns | ApplyCustomFunction | GetProcessedDf | SaveDataframe

datatype ui_msg =
    UiStart
  | UiSection call
  | UiError call reason
  | UiJsonError call reason
  | UiSelectSkipped
  | UiSaved string
  | UiDone

datatype drive_msg =
    DirCreated string
  | DirWarning string reason
  | Mounting
  | Mounted
  | ColabNotFound
  | MountError reason
  | MkdirError string reason
  | CheckError reason
  | DriveUnavailable
  | SavedTo string
  | MetadataSavedTo string
  | SaveError reason

datatype 'f line = P "'f proc_msg" | U ui_msg | D drive_msg

section \<open>The pandas interface\<close>

record ('df, 'ser, 'f) pandas =
  pd_columns :: "'df \<Rightarrow> string list"
  pd_shape :: "'df \<Rightarrow> shape"
  pd_dtypes :: "'df \<Rightarrow> (string \<times> string) list"
  pd_getitem :: "'df \<Rightarrow> string \<Rightarrow> exn + 'ser"
  pd_getitems :: "'df \<Rightarrow> string list \<Rightarrow> exn + 'df"
  pd_setitem :: "'df \<Rightarrow> string \<Rightarrow> 'ser \<Rightarrow> exn + 'df"
  pd_setitems :: "'df \<Rightarrow> string list \<Rightarrow> 'df \<Rightarrow> exn + 'df"
  pd_to_datetime :: "'ser \<Rightarrow> string \<Rightarrow> bool option \<Rightarrow> exn + 'ser"
  pd_set_index :: "'df \<Rightarrow> string \<Rightarrow> exn + 'df"
  pd_reset_index :: "'df \<Rightarrow> exn + 'df"
  pd_isna_count :: "'df \<Rightarrow> nat"
  pd_isna_any :: "'ser \<Rightarrow> bool"
  pd_fillna_method :: "'df \<Rightarrow> string \<Rightarrow> exn + 'df"
  pd_fillna :: "'df \<Rightarrow> 'f pyval \<Rightarrow> exn + 'df"
  pd_ser_fillna :: "'ser \<Rightarrow> 'f pyval \<Rightarrow> exn + 'ser"
  pd_dropna :: "'df \<Rightarrow> string list option \<Rightarrow> exn + 'df"
  pd_dropna_cols :: "'df \<Rightarrow> exn + 'df"
  pd_interpolate :: "'df \<Rightarrow> string \<Rightarrow> exn + 'df"
  pd_is_numeric_dtype :: "'ser \<Rightarrow> bool"
  pd_mean :: "'ser \<Rightarrow> exn + 'f pyval"
  pd_median :: "'ser \<Rightarrow> exn + 'f pyval"
  pd_dtype :: "'ser \<Rightarrow> string"
  pd_astype :: "'ser \<Rightarrow> string \<Rightarrow> string \<Rightarrow> exn + 'ser"
  pd_drop_duplicates :: "'df \<Rightarrow> string list option \<Rightarrow> keep \<Rightarrow> exn + 'df"
  pd_rename :: "'df \<Rightarrow> (string \<times> string) list \<Rightarrow> exn + 'df"

section \<open>State and control flow\<close>

text \<open>
  The fields of a \<open>DataFrameProcessor\<close> (\<open>df\<close>, \<open>log_messages\<close>), the store of
  DataFrame objects, and what has been printed. \<open>calls\<close> is a history variable: every
  public method appends its name on entry and nothing reads it.
\<close>

record ('df, 'f) pstate =
  heap :: "'df list"
  df :: addr
  log_messages :: "'f proc_msg list"
  stdout :: "'f line list"
  calls :: "call list"

text \<open>A statement: it runs on a state, and returns a value or raises.\<close>

type_synonym ('s, 'a) prog = "'s \<Rightarrow> (exn + 'a) \<times> 's"

definition ret :: "'a \<Rightarrow> ('s, 'a) prog" where
  "ret x = (\<lambda>s. (Inr x, s))"

definition raise :: "exn \<Rightarrow> ('s, 'a) prog" where
  "raise e = (\<lambda>s. (Inl e, s))"

definition bnd :: "('s, 'a) prog \<Rightarrow> ('a \<Rightarrow> ('s, 'b) prog) \<Rightarrow> ('s, 'b) prog" where
  "bnd m f = (\<lambda>s. case m s of (Inl e, s') \<Rightarrow> (Inl e, s') | (Inr x, s') \<Rightarrow> f x s')"

definition sq :: "('s, unit) prog \<Rightarrow> ('s, 'b) prog \<Rightarrow> ('s, 'b) prog" where
  "sq m n = bnd m (\<lambda>_. n)"

text \<open>\<open>try: m except Exception as e: h e\<close>\<close>

definition try_except :: "('s, 'a) prog \<Rightarrow> (exn \<Rightarrow> ('s, 'a) prog) \<Rightarrow> ('s, 'a) prog" where
  "try_except m h = (\<lambda>s. case m s of (Inl e, s') \<Rightarrow> h e s' | (Inr x, s') \<Rightarrow> (Inr x, s'))"

text \<open>A library call: it has no effect on the state, and may raise.\<close>

definition lift :: "exn + 'a \<Rightarrow> ('s, 'a) prog" where
  "lift r = (\<lambda>s. (r, s))"

text \<open>Chaining library calls: the first exception wins.\<close>

definition and_then :: "exn + 'a \<Rightarrow> ('a \<Rightarrow> exn + 'b) \<Rightarrow> exn + 'b" where
  "and_then r f = (case r of Inl e \<Rightarrow> Inl e | Inr x \<Rightarrow> f x)"

text \<open>Reading a field or a value of the state, and an assignment to fields.\<close>

definition get :: "('s \<Rightarrow> 'a) \<Rightarrow> ('s, 'a) prog" where
  "get f = (\<lambda>s. (Inr (f s), s))"

definition modify :: "('s \<Rightarrow> 's) \<Rightarrow> ('s, unit) prog" where
  "modify g = (\<lambda>s. (Inr (), g s))"

fun for_each :: "'a list \<Rightarrow> ('a \<Rightarrow> ('s, unit) prog) \<Rightarrow> ('s, unit) prog" where
  "for_each [] body = ret ()"
| "for_each (x # xs) body = sq (body x) (for_each xs body)"

text \<open>\<open>print(m)\<close>\<close>

definition print :: "'f line \<Rightarrow> (('df, 'f, 'z) pstate_scheme, unit) prog" where
  "print m = modify (\<lambda>s. s\<lparr>stdout := stdout s @ [m]\<rparr>)"

definition called :: "call \<Rightarrow> (('df, 'f, 'z) pstate_scheme, unit) prog" where
  "called c = modify (\<lambda>s. s\<lparr>calls := calls s @ [c]\<rparr>)"

text \<open>Reading \<open>self.df\<close>: the value of the object the field refers to.\<close>

definition read_df :: "(('df, 'f, 'z) pstate_scheme, 'df) prog" where
  "read_df = get (\<lambda>s. heap s ! df s)"

text \<open>An update in place of the object \<open>self.df\<close> refers to.\<close>

definition mutate_df :: "'df \<Rightarrow> (('df, 'f, 'z) pstate_scheme, unit) prog" where
  "mutate_df v = modify (\<lambda>s. s\<lparr>heap := (heap s)[df s := v]\<rparr>)"

text \<open>A new object with value \<open>v\<close>; its address is returned.\<close>

definition alloc :: "'df \<Rightarrow> (('df, 'f, 'z) pstate_scheme, addr) prog" where
  "alloc v = (\<lambda>s. (Inr (length (heap s)), s\<lparr>heap := heap s @ [v]\<rparr>))"

text \<open>\<open>a.copy()\<close>, for an object \<open>a\<close>: a new object with the same value.\<close>

definition copy :: "addr \<Rightarrow> (('df, 'f, 'z) pstate_scheme, addr) prog" where
  "copy a = bnd (get (\<lambda>s. heap s ! a)) alloc"

text \<open>\<open>self.df = a\<close>, for an object \<open>a\<close>.\<close>

definition bind_df :: "addr \<Rightarrow> (('df, 'f, 'z) pstate_scheme, unit) prog" where
  "bind_df a = modify (\<lambda>s. s\<lparr>df := a\<rparr>)"

text \<open>\<open>self.df = v\<close>, for a table \<open>v\<close> a library call has just built.\<close>

definition assign_df :: "'df \<Rightarrow> (('df, 'f, 'z) pstate_scheme, unit) prog" where
  "assign_df v = bnd (alloc v) bind_df"

text \<open>\<open>self.df = f(self.df)\<close> and the in-place \<open>f(self.df)\<close>.\<close>

definition rebind_with :: "('df \<Rightarrow> exn + 'df) \<Rightarrow> (('df, 'f, 'z) pstate_scheme, unit) prog" where
  "rebind_with f = bnd read_df (\<lambda>d. bnd (lift (f d)) assign_df)"

definition mutate_with :: "('df \<Rightarrow> exn + 'df) \<Rightarrow> (('df, 'f, 'z) pstate_scheme, unit) prog" where
  "mutate_with f = bnd read_df (\<lambda>d. bnd (lift (f d)) mutate_df)"

section \<open>data_processor.py: DataFrameProcessor\<close>

definition priv_log :: "'f proc_msg \<Rightarrow> (('df, 'f, 'z) pstate_scheme, unit) prog" where
  "priv_log message =
     sq (print (P message))
        (modify (\<lambda>s. s\<lparr>log_messages := log_messages s @ [message]\<rparr>))"

text \<open>\<open>DataFrameProcessor(df)\<close>, for the object \<open>input\<close>.\<close>

definition DataFrameProcessor ::
  "('df, 'ser, 'f) pandas \<Rightarrow> addr \<Rightarrow> (('df, 'f, 'z) pstate_scheme, unit) prog" where
  "DataFrameProcessor L input =
     sq (called Init)
    (bnd (copy input) (\<lambda>a.
     sq (bind_df a)
    (sq (modify (\<lambda>s. s\<lparr>log_messages := []\<rparr>))
    (bnd read_df (\<lambda>d. priv_log (Created (pd_shape L d)))))))"

definition set_datetime_index ::
  "('df, 'ser, 'f) pandas \<Rightarrow> string \<Rightarrow> string \<Rightarrow> bool \<Rightarrow>
   (('df, 'f, 'z) pstate_scheme, unit) prog" where
  "set_datetime_index L time_col errors infer_datetime_format =
     sq (called SetDatetimeIndex)
    (try_except
      (bnd read_df (\<lambda>d.
       if time_col \<notin> set (pd_columns L d)
       then raise (Exn KeyError (ColumnNotFound time_col))
       else
         let orig_shape = pd_shape L d in
         sq (mutate_with (\<lambda>d.
               and_then (pd_getitem L d time_col) (\<lambda>col.
               and_then (pd_to_datetime L col errors (Some infer_datetime_format)) (\<lambda>col'.
               pd_setitem L d time_col col'))))
        (sq (mutate_with (\<lambda>d. pd_set_index L d time_col))
        (sq (priv_log (DatetimeIndexSet time_col))
        (bnd read_df (\<lambda>d'.
           if fst orig_shape \<noteq> fst (pd_shape L d')
           then priv_log (ShapeChanged orig_shape (pd_shape L d'))
           else ret ()))))))
      (\<lambda>e. sq (priv_log (DatetimeIndexError (str_of e))) (raise e)))"

text \<open>\<open>if subset_cols:\<close> holds for a list that is neither None nor empty.\<close>

fun truthy :: "'a list option \<Rightarrow> bool" where
  "truthy None = False"
| "truthy (Some []) = False"
| "truthy (Some (x # xs)) = True"

fun the_list :: "'a list option \<Rightarrow> 'a list" where
  "the_list None = []"
| "the_list (Some xs) = xs"

definition valid_strategies :: "string list" where
  "valid_strategies =
     [''ffill'', ''bfill'', ''dropna_rows'', ''dropna_cols'', ''interpolate'',
      ''fill_constant'', ''fill_mean'', ''fill_median'', ''fill_zero'']"

text \<open>\<open>for col in cols: if col not in self.df.columns: raise ValueError(...)\<close>\<close>

definition check_columns ::
  "('df, 'ser, 'f) pandas \<Rightarrow> string list \<Rightarrow> (('df, 'f, 'z) pstate_scheme, unit) prog" where
  "check_columns L cols =
     for_each cols (\<lambda>col. bnd read_df (\<lambda>d.
       if col \<notin> set (pd_columns L d) then raise (Exn ValueError (ColumnNotFound col))
       else ret ()))"

text \<open>\<open>self.df[subset_cols] = f(self.df[subset_cols])\<close>\<close>

definition update_subset ::
  "('df, 'ser, 'f) pandas \<Rightarrow> string list \<Rightarrow> ('df \<Rightarrow> exn + 'df) \<Rightarrow>
   (('df, 'f, 'z) pstate_scheme, unit) prog" where
  "update_subset L cols f =
     mutate_with (\<lambda>d. and_then (pd_getitems L d cols) (\<lambda>sub.
       and_then (f sub) (\<lambda>sub'. pd_setitems L d cols sub')))"

text \<open>The branches of ffill, bfill, interpolate, fill_constant and fill_zero.\<close>

definition fill_all_or_subset ::
  "('df, 'ser, 'f) pandas \<Rightarrow> string list option \<Rightarrow> ('df \<Rightarrow> exn + 'df) \<Rightarrow>
   (('df, 'f, 'z) pstate_scheme, unit) prog" where
  "fill_all_or_subset L subset_cols f =
     (if truthy subset_cols then update_subset L (the_list subset_cols) f
      else rebind_with f)"

text \<open>
  \<open>[col for col in self.df.columns if col not in subset_cols or not self.df[col].isna().any()]\<close>
\<close>

fun cols_to_keep ::
  "('df, 'ser, 'f) pandas \<Rightarrow> 'df \<Rightarrow> string list \<Rightarrow> string list \<Rightarrow> exn + string list" where
  "cols_to_keep L d subset_cols [] = Inr []"
| "cols_to_keep L d subset_cols (col # cols) =
     (if col \<notin> set subset_cols
      then and_then (cols_to_keep L d subset_cols cols) (\<lambda>rest. Inr (col # rest))
      else and_then (pd_getitem L d col) (\<lambda>c.
           and_then (cols_to_keep L d subset_cols cols) (\<lambda>rest.
           Inr (if \<not> pd_isna_any L c then col # rest else rest))))"

text \<open>The loop of fill_mean and fill_median, \<open>stat\<close> being the mean or the median.\<close>

definition fill_stat ::
  "('df, 'ser, 'f) pandas \<Rightarrow> ('ser \<Rightarrow> exn + 'f pyval) \<Rightarrow> string list option \<Rightarrow>
   (('df, 'f, 'z) pstate_scheme, unit) prog" where
  "fill_stat L stat subset_cols =
     bnd read_df (\<lambda>d0.
     for_each (if truthy subset_cols then the_list subset_cols else pd_columns L d0)
       (\<lambda>col. bnd read_df (\<lambda>d. bnd (lift (pd_getitem L d col)) (\<lambda>c.
          if pd_is_numeric_dtype L c
          then mutate_with (\<lambda>d.
                 and_then (pd_getitem L d col) (\<lambda>c.
                 and_then (stat c) (\<lambda>m.
                 and_then (pd_ser_fillna L c m) (\<lambda>c'.
                 pd_setitem L d col c'))))
          else ret ()))))"

text \<open>
  The \<open>if strategy == ...: ... elif ...\<close> chain; the result is \<open>strategy_desc\<close>, None
  when no branch has bound it.
\<close>

definition apply_strategy ::
  "('df, 'ser, 'f) pandas \<Rightarrow> string \<Rightarrow> string list option \<Rightarrow> 'f pyval option \<Rightarrow> string \<Rightarrow>
   (('df, 'f, 'z) pstate_scheme, 'f strategy_desc option) prog" where
  "apply_strategy L strategy subset_cols fill_value method =
    (if strategy = ''ffill'' then
       sq (fill_all_or_subset L subset_cols (\<lambda>d. pd_fillna_method L d ''ffill''))
          (ret (Some DescFfill))
     else if strategy = ''bfill'' then
       sq (fill_all_or_subset L subset_cols (\<lambda>d. pd_fillna_method L d ''bfill''))
          (ret (Some DescBfill))
     else if strategy = ''dropna_rows'' then
       bnd read_df (\<lambda>d0.
       let orig_shape = pd_shape L d0 in
       sq (if truthy subset_cols then rebind_with (\<lambda>d. pd_dropna L d subset_cols)
           else rebind_with (\<lambda>d. pd_dropna L d None))
      (bnd read_df (\<lambda>d1.
         ret (Some (DescDropRows (int (fst orig_shape) - int (fst (pd_shape L d1))))))))
     else if strategy = ''dropna_cols'' then
       bnd read_df (\<lambda>d0.
       let orig_shape = pd_shape L d0 in
       sq (if truthy subset_cols
           then rebind_with (\<lambda>d.
                  and_then (cols_to_keep L d (the_list subset_cols) (pd_columns L d))
                    (pd_getitems L d))
           else rebind_with (pd_dropna_cols L))
      (bnd read_df (\<lambda>d1.
         ret (Some (DescDropCols (int (snd orig_shape) - int (snd (pd_shape L d1))))))))
     else if strategy = ''interpolate'' then
       sq (fill_all_or_subset L subset_cols (\<lambda>d. pd_interpolate L d method))
          (ret (Some (DescInterpolate method)))
     else if strategy = ''fill_constant'' then
       (case fill_value of
          None \<Rightarrow> raise (Exn ValueError FillValueRequired)
        | Some v \<Rightarrow>
            sq (fill_all_or_subset L subset_cols (\<lambda>d. pd_fillna L d v))
               (ret (Some (DescConstant v))))
     else if strategy = ''fill_mean'' then
       sq (fill_stat L (pd_mean L) subset_cols) (ret (Some DescMean))
     else if strategy = ''fill_median'' then
       sq (fill_stat L (pd_median L) subset_cols) (ret (Some DescMedian))
     else if strategy = ''fill_zero'' then
       sq (fill_all_or_subset L subset_cols (\<lambda>d. pd_fillna L d (PyInt 0)))
          (ret (Some DescZero))
     else ret None)"

text \<open>The count of missing values after the strategy has run.\<close>

definition missing_after ::
  "('df, 'ser, 'f) pandas \<Rightarrow> string \<Rightarrow> string list option \<Rightarrow>
   (('df, 'f, 'z) pstate_scheme, nat) prog" where
  "missing_after L strategy subset_cols =
     bnd read_df (\<lambda>d.
       if strategy \<in> set [''dropna_rows'', ''dropna_cols''] then
         let cols_to_check =
               (if truthy subset_cols
                   \<and> (\<forall>col \<in> set (the_list subset_cols). col \<in> set (pd_columns L d))
                then the_list subset_cols else pd_columns L d)
         in bnd (lift (pd_getitems L d cols_to_check)) (\<lambda>t. ret (pd_isna_count L t))
       else if truthy subset_cols
         then bnd (lift (pd_getitems L d (the_list subset_cols))) (\<lambda>t. ret (pd_isna_count L t))
         else ret (pd_isna_count L d))"

definition handle_missing_values ::
  "('df, 'ser, 'f) pandas \<Rightarrow> string \<Rightarrow> string list option \<Rightarrow> 'f pyval option \<Rightarrow> string \<Rightarrow>
   (('df, 'f, 'z) pstate_scheme, unit) prog" where
  "handle_missing_values L strategy subset_cols fill_value method =
     sq (called HandleMissingValues)
    (try_except
      (if strategy \<notin> set valid_strategies
       then raise (Exn ValueError (UnsupportedStrategy strategy))
       else
         bnd (if truthy subset_cols
              then sq (check_columns L (the_list subset_cols))
                      (bnd read_df (\<lambda>d. lift (pd_getitems L d (the_list subset_cols))))
              else read_df) (\<lambda>temp_df.
         let missing_before = pd_isna_count L temp_df in
         bnd (apply_strategy L strategy subset_cols fill_value method) (\<lambda>strategy_desc.
         bnd (missing_after L strategy subset_cols) (\<lambda>after.
         (case strategy_desc of
            None \<Rightarrow> raise (Exn NameError (Unbound ''strategy_desc''))
          | Some desc \<Rightarrow>
              sq (priv_log (MissingHandled
                    (if truthy subset_cols then subset_cols else None) desc))
                 (priv_log (MissingCounts missing_before after)))))))
      (\<lambda>e. sq (priv_log (MissingError (str_of e))) (raise e)))"

text \<open>The \<open>if target_type == ...\<close> chain of \<open>convert_data_types\<close>, inside its inner \<open>try\<close>.\<close>

definition convert_column ::
  "('df, 'ser, 'f) pandas \<Rightarrow> string \<Rightarrow> string \<Rightarrow> string \<Rightarrow>
   (('df, 'f, 'z) pstate_scheme, unit) prog" where
  "convert_column L col target_type errors =
    (if target_type = ''float'' then
       mutate_with (\<lambda>d. and_then (pd_getitem L d col) (\<lambda>c.
         and_then (pd_astype L c ''float'' errors) (pd_setitem L d col)))
     else if target_type = ''int'' then
       bnd read_df (\<lambda>d0. bnd (lift (pd_getitem L d0 col)) (\<lambda>c0.
         if pd_isna_any L c0
         then mutate_with (\<lambda>d. and_then (pd_getitem L d col) (\<lambda>c.
                and_then (pd_astype L c ''Int64'' errors) (pd_setitem L d col)))
         else mutate_with (\<lambda>d. and_then (pd_getitem L d col) (\<lambda>c.
                and_then (pd_astype L c ''int'' errors) (pd_setitem L d col)))))
     else if target_type = ''str'' then
       mutate_with (\<lambda>d. and_then (pd_getitem L d col) (\<lambda>c.
         and_then (pd_astype L c ''str'' errors) (pd_setitem L d col)))
     else if target_type = ''category'' then
       mutate_with (\<lambda>d. and_then (pd_getitem L d col) (\<lambda>c.
         and_then (pd_astype L c ''category'' errors) (pd_setitem L d col)))
     else if target_type = ''bool'' then
       mutate_with (\<lambda>d. and_then (pd_getitem L d col) (\<lambda>c.
         and_then (pd_astype L c ''bool'' errors) (pd_setitem L d col)))
     else if target_type = ''datetime'' then
       mutate_with (\<lambda>d. and_then (pd_getitem L d col) (\<lambda>c.
         and_then (pd_to_datetime L c errors None) (pd_setitem L d col)))
     else raise (Exn ValueError (UnsupportedType target_type)))"

text \<open>One round of \<open>for col, target_type in column_types.items()\<close>.\<close>

definition convert_one ::
  "('df, 'ser, 'f) pandas \<Rightarrow> string \<Rightarrow> string \<times> string \<Rightarrow>
   (('df, 'f, 'z) pstate_scheme, unit) prog" where
  "convert_one L errors item =
    (case item of (col, target_type) \<Rightarrow>
     bnd read_df (\<lambda>d.
       if col \<notin> set (pd_columns L d) \<and> errors = ''ignore''
       then priv_log (ColumnSkipped col)
       else
         bnd (lift (pd_getitem L d col)) (\<lambda>c.
         let original_dtype = pd_dtype L c in
         try_except
           (sq (convert_column L col target_type errors)
              (bnd read_df (\<lambda>d'. bnd (lift (pd_getitem L d' col)) (\<lambda>c'.
                 priv_log (TypeConverted col original_dtype (pd_dtype L c'))))))
           (\<lambda>e. if errors = ''raise''
                then raise (Exn ValueError (ConversionFailed col target_type (str_of e)))
                else priv_log (ConversionSkipped col target_type (str_of e))))))"

definition convert_data_types ::
  "('df, 'ser, 'f) pandas \<Rightarrow> json \<Rightarrow> string \<Rightarrow> (('df, 'f, 'z) pstate_scheme, unit) prog" where
  "convert_data_types L column_types errors =
     sq (called ConvertDataTypes)
    (try_except
      (case column_types of
         JsonOther \<Rightarrow> raise (Exn AttributeError (NoAttribute ''keys''))
       | JsonDict items \<Rightarrow>
           bnd read_df (\<lambda>d.
           let missing_columns = filter (\<lambda>col. col \<notin> set (pd_columns L d)) (map fst items) in
           if missing_columns \<noteq> [] \<and> errors = ''raise''
           then raise (Exn KeyError (ColumnsNotFound missing_columns))
           else for_each items (convert_one L errors)))
      (\<lambda>e. sq (priv_log (ConversionError (str_of e))) (raise e)))"

definition remove_duplicate_rows ::
  "('df, 'ser, 'f) pandas \<Rightarrow> string list option \<Rightarrow> keep \<Rightarrow>
   (('df, 'f, 'z) pstate_scheme, unit) prog" where
  "remove_duplicate_rows L subset' keep =
     sq (called RemoveDuplicateRows)
    (try_except
      (sq (if truthy subset' then check_columns L (the_list subset') else ret ())
      (bnd read_df (\<lambda>d0.
       let orig_count = fst (pd_shape L d0) in
       sq (rebind_with (\<lambda>d. pd_drop_duplicates L d subset' keep))
      (bnd read_df (\<lambda>d1.
       let removed_count = int orig_count - int (fst (pd_shape L d1)) in
       priv_log (DuplicatesRemoved removed_count
                   (if truthy subset' then subset' else None) keep))))))
      (\<lambda>e. sq (priv_log (DuplicatesError (str_of e))) (raise e)))"

definition rename_columns ::
  "('df, 'ser, 'f) pandas \<Rightarrow> json \<Rightarrow> (('df, 'f, 'z) pstate_scheme, unit) prog" where
  "rename_columns L rename_map =
     sq (called RenameColumns)
    (try_except
      (case rename_map of
         JsonOther \<Rightarrow> raise (Exn AttributeError (NoAttribute ''keys''))
       | JsonDict items \<Rightarrow>
           bnd read_df (\<lambda>d.
           let missing_columns = filter (\<lambda>col. col \<notin> set (pd_columns L d)) (map fst items) in
           if missing_columns \<noteq> []
           then raise (Exn KeyError (RenameColumnsNotFound missing_columns))
           else sq (rebind_with (\<lambda>d. pd_rename L d items))
                   (priv_log (Renamed items))))
      (\<lambda>e. sq (priv_log (RenameError (str_of e))) (raise e)))"

definition select_columns ::
  "('df, 'ser, 'f) pandas \<Rightarrow> string list \<Rightarrow> (('df, 'f, 'z) pstate_scheme, unit) prog" where
  "select_columns L columns_to_keep =
     sq (called SelectColumns)
    (try_except
      (bnd read_df (\<lambda>d.
       let missing_columns = filter (\<lambda>col. col \<notin> set (pd_columns L d)) columns_to_keep in
       if missing_columns \<noteq> []
       then raise (Exn ValueError (SelectColumnsNotFound missing_columns))
       else
         let original_columns = set (pd_columns L d) in
         sq (rebind_with (\<lambda>d. pd_getitems L d columns_to_keep))
        (let removed_columns = original_columns - set columns_to_keep in
         sq (priv_log (ColumnsKept columns_to_keep))
            (if removed_columns \<noteq> {} then priv_log (ColumnsRemoved removed_columns)
             else ret ()))))
      (\<lambda>e. sq (priv_log (SelectError (str_of e))) (raise e)))"

text \<open>
  What a user-supplied function returns: a DataFrame object, or something else. The
  function is any statement: it is given the object \<open>self.df\<close> refers to, and may
  read and write whatever it can reach.
\<close>

datatype pyobj = DataFrameRef addr | NotDataFrame

definition apply_custom_function ::
  "('df, 'ser, 'f) pandas \<Rightarrow> (addr \<Rightarrow> (('df, 'f, 'z) pstate_scheme, pyobj) prog) \<Rightarrow>
   (('df, 'f, 'z) pstate_scheme, unit) prog" where
  "apply_custom_function L func =
     sq (called ApplyCustomFunction)
    (try_except
      (bnd read_df (\<lambda>d0.
       let orig_shape = pd_shape L d0; orig_dtypes = pd_dtypes L d0 in
       bnd (bnd (get df) func) (\<lambda>result.
       case result of
         NotDataFrame \<Rightarrow> raise (Exn ValueError NotADataFrame)
       | DataFrameRef a \<Rightarrow>
           sq (bind_df a)
          (bnd read_df (\<lambda>d1.
           sq (if orig_shape \<noteq> pd_shape L d1
               then priv_log (CustomShapeChanged orig_shape (pd_shape L d1)) else ret ())
          (let new_dtypes = pd_dtypes L d1;
               changed_dtypes =
                 {(col, old, new). (col, old) \<in> set orig_dtypes \<and> (col, new) \<in> set new_dtypes
                    \<and> old \<noteq> new}
           in
           sq (if changed_dtypes \<noteq> {} then priv_log (CustomDtypesChanged changed_dtypes)
               else ret ())
          (let new_columns = fst ` set new_dtypes - fst ` set orig_dtypes in
           sq (if new_columns \<noteq> {} then priv_log (ColumnsAdded new_columns) else ret ())
          (let removed_columns = fst ` set orig_dtypes - fst ` set new_dtypes in
           sq (if removed_columns \<noteq> {} then priv_log (ColumnsRemoved removed_columns)
               else ret ())
              (priv_log CustomApplied)))))))))
      (\<lambda>e. sq (priv_log (CustomError (str_of e))) (raise e)))"

definition get_processed_df ::
  "('df, 'ser, 'f) pandas \<Rightarrow> (('df, 'f, 'z) pstate_scheme, addr) prog" where
  "get_processed_df L =
     sq (called GetProcessedDf)
    (bnd read_df (\<lambda>d.
     sq (priv_log (ProcessedReturned (pd_shape L d)))
        (bnd (get df) copy)))"

definition get_log_messages :: "('df, 'f, 'z) pstate_scheme \<Rightarrow> 'f proc_msg list" where
  "get_log_messages s = log_messages s"

section \<open>Python strings and paths\<close>

text \<open>\<open>str.isspace\<close> on a character, \<open>str.strip()\<close> and \<open>str.split(sep)\<close>.\<close>

definition isspace :: "char \<Rightarrow> bool" where
  "isspace c =
     (let n = (of_char c :: nat)
      in (9 \<le> n \<and> n \<le> 13) \<or> (28 \<le> n \<and> n \<le> 32) \<or> n = 133 \<or> n = 160)"

definition strip :: "string \<Rightarrow> string" where
  "strip s = rev (dropWhile isspace (rev (dropWhile isspace s)))"

fun split :: "char \<Rightarrow> string \<Rightarrow> string list" where
  "split sep [] = [[]]"
| "split sep (c # cs) =
     (if c = sep then [] # split sep cs
      else (case split sep cs of [] \<Rightarrow> [[c]] | w # ws \<Rightarrow> (c # w) # ws))"

text \<open>\<open>sub in s\<close>\<close>

fun contains :: "string \<Rightarrow> string \<Rightarrow> bool" where
  "contains sub [] = (sub = [])"
| "contains sub (c # cs) = (take (length sub) (c # cs) = sub \<or> contains sub cs)"

text \<open>\<open>os.path.join(a, b)\<close> of posixpath: an absolute \<open>b\<close> replaces \<open>a\<close>.\<close>

definition os_path_join :: "string \<Rightarrow> string \<Rightarrow> string" where
  "os_path_join a b =
     (if take 1 b = ''/'' then b
      else if a = [] \<or> (a \<noteq> [] \<and> last a = CHR ''/'') then a @ b
      else a @ ''/'' @ b)"

section \<open>The environment\<close>

text \<open>
  What the code reaches outside pandas: the file system (a value of type \<open>'fs\<close>, which
  also holds the clock), the Colab module, and the parsers of Python.
\<close>

record metadata =
  md_file_format :: string
  md_timestamp :: string
  md_shape :: shape
  md_columns :: "string list"
  md_dtypes :: "(string \<times> string) list"
  md_custom :: "(string \<times> string) list"

record ('df, 'fs, 'f) env =
  os_path_exists :: "'fs \<Rightarrow> string \<Rightarrow> bool"
  os_makedirs :: "'fs \<Rightarrow> string \<Rightarrow> exn + 'fs"
  import_colab :: "'fs \<Rightarrow> exn + unit"
  drive_mount :: "'fs \<Rightarrow> string \<Rightarrow> exn + 'fs"
  now_strftime :: "'fs \<Rightarrow> string"
  now_str :: "'fs \<Rightarrow> string"
  write_table :: "'fs \<Rightarrow> string \<Rightarrow> 'df \<Rightarrow> string \<Rightarrow> exn + 'fs"
  write_json :: "'fs \<Rightarrow> string \<Rightarrow> metadata \<Rightarrow> exn + 'fs"
  json_loads :: "string \<Rightarrow> exn + json"
  py_float :: "string \<Rightarrow> 'f option"
  py_int :: "string \<Rightarrow> int option"

text \<open>
  The state of a \<open>DataProcessorUI\<close>: its processor (the fields above), \<open>raw_df\<close>,
  \<open>processed_df\<close>, the \<open>base_save_path\<close> of its \<open>drive_saver\<close>, and the file system.
\<close>

record ('df, 'f, 'fs) ustate = "('df, 'f) pstate" +
  fs :: 'fs
  base_save_path :: string
  raw_df :: addr
  processed_df :: "addr option"

text \<open>A call that changes the file system, or raises and leaves it as it was.\<close>

definition on_fs ::
  "('fs \<Rightarrow> exn + 'fs) \<Rightarrow> (('df, 'f, 'fs, 'z) ustate_scheme, unit) prog" where
  "on_fs f = (\<lambda>s. case f (fs s) of Inl e \<Rightarrow> (Inl e, s) | Inr x \<Rightarrow> (Inr (), s\<lparr>fs := x\<rparr>))"

section \<open>drive_io_handler.py: DriveIOHandler\<close>

definition DriveIOHandler ::
  "('df, 'fs, 'f) env \<Rightarrow> string \<Rightarrow> (('df, 'f, 'fs, 'z) ustate_scheme, unit) prog" where
  "DriveIOHandler E path =
     sq (modify (\<lambda>s. s\<lparr>base_save_path := path\<rparr>))
    (bnd (get base_save_path) (\<lambda>base.
     try_except
      (bnd (get (\<lambda>s. os_path_exists E (fs s) base)) (\<lambda>exists.
       if \<not> exists
       then sq (on_fs (\<lambda>x. os_makedirs E x base)) (print (D (DirCreated base)))
       else ret ()))
      (\<lambda>e. print (D (DirWarning base (str_of e))))))"

definition ensure_drive_mounted ::
  "('df, 'fs, 'f) env \<Rightarrow> (('df, 'f, 'fs, 'z) ustate_scheme, bool) prog" where
  "ensure_drive_mounted E =
     bnd (get base_save_path) (\<lambda>base.
     try_except
       (bnd (get (\<lambda>s. os_path_exists E (fs s) ''/content/drive'')) (\<lambda>drive_exists.
        bnd (if contains ''/content/drive'' base \<and> \<not> drive_exists
             then try_except
                    (sq (bnd (get (\<lambda>s. import_colab E (fs s))) lift)
                    (sq (print (D Mounting))
                    (sq (on_fs (\<lambda>x. drive_mount E x ''/content/drive''))
                    (sq (print (D Mounted))
                        (ret True)))))
                    (\<lambda>e. if exn_class_of e = ImportError
                         then sq (print (D ColabNotFound)) (ret False)
                         else sq (print (D (MountError (str_of e)))) (ret False))
             else ret True)
        (\<lambda>go_on.
          if \<not> go_on then ret False
          else
            bnd (get (\<lambda>s. os_path_exists E (fs s) base)) (\<lambda>base_exists.
            if \<not> base_exists
            then try_except
                   (sq (on_fs (\<lambda>x. os_makedirs E x base))
                   (sq (print (D (DirCreated base)))
                       (ret True)))
                   (\<lambda>e. sq (print (D (MkdirError base (str_of e)))) (ret False))
            else ret True))))
       (\<lambda>e. sq (print (D (CheckError (str_of e)))) (ret False)))"

definition valid_formats :: "string list" where
  "valid_formats = [''parquet'', ''csv'', ''feather'', ''pickle'']"

text \<open>The name of the file: \<open>f"{filename_prefix}_{timestamp}.{file_format}"\<close> or without the stamp.\<close>

definition filename_of :: "string \<Rightarrow> string \<Rightarrow> string \<Rightarrow> string" where
  "filename_of filename_prefix timestamp file_format =
     (if timestamp \<noteq> [] then filename_prefix @ ''_'' @ timestamp @ ''.'' @ file_format
      else filename_prefix @ ''.'' @ file_format)"

definition save_dataframe ::
  "('df, 'ser, 'f) pandas \<Rightarrow> ('df, 'fs, 'f) env \<Rightarrow> addr \<Rightarrow> string \<Rightarrow> string \<Rightarrow> bool \<Rightarrow>
   (string \<times> string) list option \<Rightarrow> (('df, 'f, 'fs, 'z) ustate_scheme, string) prog" where
  "save_dataframe L E a filename_prefix file_format include_timestamp custom_metadata =
     sq (called SaveDataframe)
    (try_except
      (bnd (ensure_drive_mounted E) (\<lambda>mounted.
       if \<not> mounted then sq (print (D DriveUnavailable)) (ret [])
       else if file_format \<notin> set valid_formats
       then raise (Exn ValueError (UnsupportedFormat file_format))
       else
         bnd (get (\<lambda>s. now_strftime E (fs s))) (\<lambda>now.
         bnd (get base_save_path) (\<lambda>base.
         bnd (get (\<lambda>s. heap s ! a)) (\<lambda>d.
         let timestamp = (if include_timestamp then now else []);
             filename = filename_of filename_prefix timestamp file_format;
             full_path = os_path_join base filename
         in
          sq (if file_format = ''parquet'' then on_fs (\<lambda>x. write_table E x ''parquet'' d full_path)
              else if file_format = ''csv'' then on_fs (\<lambda>x. write_table E x ''csv'' d full_path)
              else if file_format = ''feather''
              then bnd (lift (pd_reset_index L d)) (\<lambda>df_with_idx.
                     on_fs (\<lambda>x. write_table E x ''feather'' df_with_idx full_path))
              else if file_format = ''pickle'' then on_fs (\<lambda>x. write_table E x ''pickle'' d full_path)
              else ret ())
         (sq (print (D (SavedTo full_path)))
         (sq (if truthy custom_metadata
              then
                (let metadata_filename =
                       (if timestamp \<noteq> [] then filename_prefix @ ''_'' @ timestamp @ ''_metadata.json''
                        else filename_prefix @ ''_metadata.json'');
                     metadata_path = os_path_join base metadata_filename
                 in
                 sq (bnd (get (\<lambda>s. now_str E (fs s))) (\<lambda>stamp.
                     on_fs (\<lambda>x. write_json E x metadata_path
                        \<lparr>md_file_format = file_format, md_timestamp = stamp,
                         md_shape = pd_shape L d, md_columns = pd_columns L d,
                         md_dtypes = pd_dtypes L d, md_custom = the_list custom_metadata\<rparr>)))
                    (print (D (MetadataSavedTo metadata_path))))
              else ret ())
             (ret full_path))))))))
      (\<lambda>e. sq (print (D (SaveError (str_of e)))) (ret [])))"

section \<open>colab_processor_ui.py: DataProcessorUI\<close>

text \<open>The values of the widgets the click handler reads.\<close>

record widgets =
  cb_set_datetime_index :: bool
  text_time_col :: string
  dropdown_time_errors :: string
  cb_infer_datetime_format :: bool
  cb_handle_missing :: bool
  dropdown_missing_strategy :: string
  text_missing_fill_value :: string
  dropdown_interpolate_method :: string
  text_missing_subset_cols :: string
  cb_convert_types :: bool
  textarea_column_types :: string
  dropdown_convert_errors :: string
  cb_remove_duplicates :: bool
  dropdown_duplicates_keep :: keep
  text_duplicates_subset :: string
  cb_rename_columns :: bool
  textarea_rename_map :: string
  cb_select_columns :: bool
  text_columns_to_keep :: string
  text_save_filename_prefix :: string
  dropdown_save_format :: string
  cb_include_timestamp :: bool


text \<open>The values \<open>_create_widgets\<close> gives them.\<close>

definition create_widgets :: widgets where
  "create_widgets =
     \<lparr>cb_set_datetime_index = False, text_time_col = ''timestamp'',
      dropdown_time_errors = ''raise'', cb_infer_datetime_format = True,
      cb_handle_missing = False, dropdown_missing_strategy = ''ffill'',
      text_missing_fill_value = ''0'', dropdown_interpolate_method = ''linear'',
      text_missing_subset_cols = [],
      cb_convert_types = False, textarea_column_types = ''{}'',
      dropdown_convert_errors = ''raise'',
      cb_remove_duplicates = False, dropdown_duplicates_keep = KeepFirst,
      text_duplicates_subset = [],
      cb_rename_columns = False, textarea_rename_map = ''{}'',
      cb_select_columns = False, text_columns_to_keep = [],
      text_save_filename_prefix = ''processed_data'', dropdown_save_format = ''parquet'',
      cb_include_timestamp = True\<rparr>"

text \<open>\<open>[col.strip() for col in text.split(',')] if text else None\<close>\<close>

definition column_list :: "string \<Rightarrow> string list option" where
  "column_list text = (if text \<noteq> [] then Some (map strip (split CHR '','' text)) else None)"

text \<open>\<open>DataProcessorUI(input_df)\<close>: \<open>raw_df\<close> is the caller's object itself.\<close>

definition DataProcessorUI ::
  "('df, 'ser, 'f) pandas \<Rightarrow> ('df, 'fs, 'f) env \<Rightarrow> addr \<Rightarrow>
   (('df, 'f, 'fs, 'z) ustate_scheme, unit) prog" where
  "DataProcessorUI L E input_df =
     sq (modify (\<lambda>s. s\<lparr>raw_df := input_df, processed_df := None\<rparr>))
    (sq (bnd (get raw_df) (DataFrameProcessor L))
        (DriveIOHandler E ''/content/drive/MyDrive/processed_data/''))"

text \<open>The sections of \<open>_on_process_button_clicked\<close>, in the order of the source.\<close>

definition datetime_section ::
  "('df, 'ser, 'f) pandas \<Rightarrow> widgets \<Rightarrow> (('df, 'f, 'fs, 'z) ustate_scheme, unit) prog" where
  "datetime_section L w =
    (if cb_set_datetime_index w then
       sq (print (U (UiSection SetDatetimeIndex)))
      (let time_col = strip (text_time_col w);
           errors = dropdown_time_errors w;
           infer_datetime_format = cb_infer_datetime_format w
       in try_except
            (set_datetime_index L time_col errors infer_datetime_format)
            (\<lambda>e. print (U (UiError SetDatetimeIndex (str_of e)))))
     else ret ())"

text \<open>
  \<open>float(text) if '.' in text else int(text)\<close>, and the text itself when that raises
  ValueError.
\<close>

definition parse_fill_value :: "('df, 'fs, 'f) env \<Rightarrow> string \<Rightarrow> 'f pyval" where
  "parse_fill_value E fill_value_text =
    (if CHR ''.'' \<in> set fill_value_text
     then (case py_float E fill_value_text of Some x \<Rightarrow> PyFloat x
           | None \<Rightarrow> PyStr fill_value_text)
     else (case py_int E fill_value_text of Some n \<Rightarrow> PyInt n
           | None \<Rightarrow> PyStr fill_value_text))"

definition missing_section ::
  "('df, 'ser, 'f) pandas \<Rightarrow> ('df, 'fs, 'f) env \<Rightarrow> widgets \<Rightarrow>
   (('df, 'f, 'fs, 'z) ustate_scheme, unit) prog" where
  "missing_section L E w =
    (if cb_handle_missing w then
       sq (print (U (UiSection HandleMissingValues)))
      (let strategy = dropdown_missing_strategy w;
           subset_cols_text = strip (text_missing_subset_cols w);
           subset_cols = column_list subset_cols_text;
           fill_value =
             (if strategy = ''fill_constant''
              then Some (parse_fill_value E (strip (text_missing_fill_value w))) else None);
           method =
             (if strategy = ''interpolate'' then dropdown_interpolate_method w else ''linear'')
       in try_except
            (handle_missing_values L strategy subset_cols fill_value method)
            (\<lambda>e. print (U (UiError HandleMissingValues (str_of e)))))
     else ret ())"

definition convert_section ::
  "('df, 'ser, 'f) pandas \<Rightarrow> ('df, 'fs, 'f) env \<Rightarrow> widgets \<Rightarrow>
   (('df, 'f, 'fs, 'z) ustate_scheme, unit) prog" where
  "convert_section L E w =
    (if cb_convert_types w then
       sq (print (U (UiSection ConvertDataTypes)))
      (try_except
         (bnd (lift (json_loads E (textarea_column_types w))) (\<lambda>column_types.
          let errors = dropdown_convert_errors w in
          convert_data_types L column_types errors))
         (\<lambda>e. if exn_class_of e = JSONDecodeError
              then print (U (UiJsonError ConvertDataTypes (str_of e)))
              else print (U (UiError ConvertDataTypes (str_of e)))))
     else ret ())"

definition duplicates_section ::
  "('df, 'ser, 'f) pandas \<Rightarrow> widgets \<Rightarrow> (('df, 'f, 'fs, 'z) ustate_scheme, unit) prog" where
  "duplicates_section L w =
    (if cb_remove_duplicates w then
       sq (print (U (UiSection RemoveDuplicateRows)))
      (let subset_text = strip (text_duplicates_subset w);
           subset' = column_list subset_text;
           keep = dropdown_duplicates_keep w
       in try_except
            (remove_duplicate_rows L subset' keep)
            (\<lambda>e. print (U (UiError RemoveDuplicateRows (str_of e)))))
     else ret ())"

definition rename_section ::
  "('df, 'ser, 'f) pandas \<Rightarrow> ('df, 'fs, 'f) env \<Rightarrow> widgets \<Rightarrow>
   (('df, 'f, 'fs, 'z) ustate_scheme, unit) prog" where
  "rename_section L E w =
    (if cb_rename_columns w then
       sq (print (U (UiSection RenameColumns)))
      (try_except
         (bnd (lift (json_loads E (textarea_rename_map w))) (\<lambda>rename_map.
          rename_columns L rename_map))
         (\<lambda>e. if exn_class_of e = JSONDecodeError
              then print (U (UiJsonError RenameColumns (str_of e)))
              else print (U (UiError RenameColumns (str_of e)))))
     else ret ())"

definition select_section ::
  "('df, 'ser, 'f) pandas \<Rightarrow> widgets \<Rightarrow> (('df, 'f, 'fs, 'z) ustate_scheme, unit) prog" where
  "select_section L w =
    (if cb_select_columns w then
       sq (print (U (UiSection SelectColumns)))
      (let columns_text = strip (text_columns_to_keep w) in
       if columns_text \<noteq> [] then
         let columns_to_keep = map strip (split CHR '','' columns_text) in
         try_except
           (select_columns L columns_to_keep)
           (\<lambda>e. print (U (UiError SelectColumns (str_of e))))
       else print (U UiSelectSkipped))
     else ret ())"

definition save_section ::
  "('df, 'ser, 'f) pandas \<Rightarrow> ('df, 'fs, 'f) env \<Rightarrow> widgets \<Rightarrow>
   (('df, 'f, 'fs, 'z) ustate_scheme, unit) prog" where
  "save_section L E w =
     sq (print (U (UiSection SaveDataframe)))
    (let filename_prefix = strip (text_save_filename_prefix w);
         file_format = dropdown_save_format w;
         include_timestamp = cb_include_timestamp w
     in try_except
          (bnd (get processed_df) (\<lambda>processed.
           bnd (save_dataframe L E (the processed) filename_prefix file_format
                  include_timestamp None)
               (\<lambda>file_path. if file_path \<noteq> [] then print (U (UiSaved file_path))
                            else ret ())))
          (\<lambda>e. print (U (UiError SaveDataframe (str_of e)))))"

definition on_process_button_clicked ::
  "('df, 'ser, 'f) pandas \<Rightarrow> ('df, 'fs, 'f) env \<Rightarrow> widgets \<Rightarrow>
   (('df, 'f, 'fs, 'z) ustate_scheme, unit) prog" where
  "on_process_button_clicked L E w =
     sq (print (U UiStart))
    (sq (bnd (get raw_df) (\<lambda>raw. bnd (copy raw) (DataFrameProcessor L)))
    (sq (datetime_section L w)
    (sq (missing_section L E w)
    (sq (convert_section L E w)
    (sq (duplicates_section L w)
    (sq (rename_section L E w)
    (sq (select_section L w)
    (sq (bnd (get_processed_df L) (\<lambda>a. modify (\<lambda>s. s\<lparr>processed_df := Some a\<rparr>)))
    (sq (save_section L E w)
        (print (U UiDone)))))))))))"

text \<open>\<open>get_final_dataframe\<close>\<close>

definition get_final_dataframe :: "('df, 'f, 'fs, 'z) ustate_scheme \<Rightarrow> addr option" where
  "get_final_dataframe s = processed_df s"

section \<open>colab_processor_ui.py: showing and hiding the parameter widgets\<close>















section \<open>A small table library, to run the model on concrete inputs\<close>

text \<open>
  An instance of the pandas interface: a table is a list of named columns of optional
  integers (None is a missing value). Labels behave as in pandas: \<open>rename\<close> leaves the
  labels it is not given as they are, \<open>df[cols]\<close> projects, \<open>set_index\<close> takes the
  column out of the columns. What this small library does not implement raises.
\<close>

type_synonym tser = "int option list"
type_synonym tdf = "(string \<times> tser) list"

definition t_unsupported :: "string \<Rightarrow> exn + 'a" where
  "t_unsupported what = Inl (Exn OtherError (LibraryText what))"

definition t_nrows :: "tdf \<Rightarrow> nat" where
  "t_nrows d = (case d of [] \<Rightarrow> 0 | (n, c) # _ \<Rightarrow> length c)"

definition t_getitem :: "tdf \<Rightarrow> string \<Rightarrow> exn + tser" where
  "t_getitem d col =
     (case map_of d col of None \<Rightarrow> Inl (Exn KeyError (LibraryText col)) | Some c \<Rightarrow> Inr c)"

definition t_getitems :: "tdf \<Rightarrow> string list \<Rightarrow> exn + tdf" where
  "t_getitems d cols =
     (if list_all (\<lambda>col. col \<in> set (map fst d)) cols
      then Inr (map (\<lambda>col. (col, the (map_of d col))) cols)
      else Inl (Exn KeyError (LibraryText ''not in index'')))"

definition t_setitem :: "tdf \<Rightarrow> string \<Rightarrow> tser \<Rightarrow> exn + tdf" where
  "t_setitem d col c =
     Inr (if col \<in> set (map fst d) then map (\<lambda>(n, x). if n = col then (n, c) else (n, x)) d
          else d @ [(col, c)])"

definition t_setitems :: "tdf \<Rightarrow> string list \<Rightarrow> tdf \<Rightarrow> exn + tdf" where
  "t_setitems d cols sub =
     Inr (map (\<lambda>(n, x). case map_of sub n of Some c \<Rightarrow> (n, c) | None \<Rightarrow> (n, x)) d)"

fun t_ffill :: "int option \<Rightarrow> tser \<Rightarrow> tser" where
  "t_ffill prev [] = []"
| "t_ffill prev (None # xs) = prev # t_ffill prev xs"
| "t_ffill prev (Some v # xs) = Some v # t_ffill (Some v) xs"

definition t_fillna_method :: "tdf \<Rightarrow> string \<Rightarrow> exn + tdf" where
  "t_fillna_method d m =
     (if m = ''ffill'' then Inr (map (\<lambda>(n, c). (n, t_ffill None c)) d)
      else if m = ''bfill'' then Inr (map (\<lambda>(n, c). (n, rev (t_ffill None (rev c)))) d)
      else t_unsupported m)"

definition t_ser_fillna :: "tser \<Rightarrow> unit pyval \<Rightarrow> exn + tser" where
  "t_ser_fillna c v =
     (case v of PyInt k \<Rightarrow> Inr (map (\<lambda>x. case x of None \<Rightarrow> Some k | Some y \<Rightarrow> Some y) c)
      | _ \<Rightarrow> t_unsupported ''fillna'')"

definition t_fillna :: "tdf \<Rightarrow> unit pyval \<Rightarrow> exn + tdf" where
  "t_fillna d v =
     (case v of
        PyInt k \<Rightarrow> Inr (map (\<lambda>(n, c). (n, map (\<lambda>x. case x of None \<Rightarrow> Some k | Some y \<Rightarrow> Some y) c)) d)
      | _ \<Rightarrow> t_unsupported ''fillna'')"

text \<open>The rows to keep, by position.\<close>

definition t_take_rows :: "tdf \<Rightarrow> nat list \<Rightarrow> tdf" where
  "t_take_rows d rows = map (\<lambda>(n, c). (n, map (\<lambda>i. c ! i) rows)) d"

definition t_row :: "tdf \<Rightarrow> string list option \<Rightarrow> nat \<Rightarrow> int option list" where
  "t_row d cols i =
     map (\<lambda>(n, c). c ! i) (filter (\<lambda>(n, c). case cols of None \<Rightarrow> True | Some cs \<Rightarrow> n \<in> set cs) d)"

definition t_dropna :: "tdf \<Rightarrow> string list option \<Rightarrow> exn + tdf" where
  "t_dropna d cols =
     Inr (t_take_rows d (filter (\<lambda>i. None \<notin> set (t_row d cols i)) [0 ..< t_nrows d]))"

definition t_dropna_cols :: "tdf \<Rightarrow> exn + tdf" where
  "t_dropna_cols d = Inr (filter (\<lambda>(n, c). None \<notin> set c) d)"

definition t_drop_duplicates :: "tdf \<Rightarrow> string list option \<Rightarrow> keep \<Rightarrow> exn + tdf" where
  "t_drop_duplicates d cols k =
     (let n = t_nrows d; same = (\<lambda>i j. t_row d cols i = t_row d cols j) in
      case k of
        KeepFirst \<Rightarrow> Inr (t_take_rows d (filter (\<lambda>i. \<not> list_ex (\<lambda>j. same i j) [0 ..< i]) [0 ..< n]))
      | KeepLast \<Rightarrow> Inr (t_take_rows d (filter (\<lambda>i. \<not> list_ex (\<lambda>j. same i j) [Suc i ..< n]) [0 ..< n]))
      | KeepFalse \<Rightarrow>
          Inr (t_take_rows d
                (filter (\<lambda>i. \<not> list_ex (\<lambda>j. j \<noteq> i \<and> same i j) [0 ..< n]) [0 ..< n]))
      | KeepOther s \<Rightarrow> Inl (Exn ValueError (LibraryText ''keep'')))"

definition t_mean :: "tser \<Rightarrow> exn + unit pyval" where
  "t_mean c =
     (let xs = filter (\<lambda>x. x \<noteq> None) c in
      if xs = [] then t_unsupported ''mean''
      else Inr (PyInt (sum_list (map the xs) div int (length xs))))"

definition t_astype :: "tser \<Rightarrow> string \<Rightarrow> string \<Rightarrow> exn + tser" where
  "t_astype c target errors =
     (if target = ''Int64'' \<or> (target = ''int'' \<and> None \<notin> set c) then Inr c
      else t_unsupported target)"

definition t_rename :: "tdf \<Rightarrow> (string \<times> string) list \<Rightarrow> exn + tdf" where
  "t_rename d m = Inr (map (\<lambda>(n, c). (case map_of m n of Some n' \<Rightarrow> n' | None \<Rightarrow> n, c)) d)"

definition tables :: "(tdf, tser, unit) pandas" where
  "tables =
     \<lparr>pd_columns = map fst,
      pd_shape = (\<lambda>d. (t_nrows d, length d)),
      pd_dtypes = map (\<lambda>(n, c). (n, if None \<in> set c then ''Int64'' else ''int64'')),
      pd_getitem = t_getitem,
      pd_getitems = t_getitems,
      pd_setitem = t_setitem,
      pd_setitems = t_setitems,
      pd_to_datetime = (\<lambda>c errors infer. Inr c),
      pd_set_index = (\<lambda>d col. Inr (filter (\<lambda>(n, c). n \<noteq> col) d)),
      pd_reset_index = Inr,
      pd_isna_count = (\<lambda>d. sum_list (map (\<lambda>(n, c). length (filter (\<lambda>x. x = None) c)) d)),
      pd_isna_any = (\<lambda>c. None \<in> set c),
      pd_fillna_method = t_fillna_method,
      pd_fillna = t_fillna,
      pd_ser_fillna = t_ser_fillna,
      pd_dropna = t_dropna,
      pd_dropna_cols = t_dropna_cols,
      pd_interpolate = (\<lambda>d m. t_unsupported ''interpolate''),
      pd_is_numeric_dtype = (\<lambda>c. True),
      pd_mean = t_mean,
      pd_median = (\<lambda>c. t_unsupported ''median''),
      pd_dtype = (\<lambda>c. if None \<in> set c then ''Int64'' else ''int64''),
      pd_astype = t_astype,
      pd_drop_duplicates = t_drop_duplicates,
      pd_rename = t_rename\<rparr>"

text \<open>
  A small environment: the file system is the list of the directories that exist, the list
  of the files written, and whether the Colab module can be imported; the clock stands still.
\<close>

record tfs =
  dirs :: "string list"
  files :: "(string \<times> string \<times> tdf) list"
  colab :: bool

text \<open>A string between double quotes.\<close>

definition quoted :: "string \<Rightarrow> string" where
  "quoted s = CHR 0x22 # s @ [CHR 0x22]"

text \<open>The JSON texts this parser knows: an empty object, two objects with one key, a list.\<close>

definition t_json_loads :: "string \<Rightarrow> exn + json" where
  "t_json_loads text =
     (if text = ''{}'' then Inr (JsonDict [])
      else if text = ''{'' @ quoted ''a'' @ '': '' @ quoted ''int'' @ ''}''
      then Inr (JsonDict [(''a'', ''int'')])
      else if text = ''{'' @ quoted ''a'' @ '': '' @ quoted ''x'' @ ''}''
      then Inr (JsonDict [(''a'', ''x'')])
      else if text = ''[]'' then Inr JsonOther
      else Inl (Exn JSONDecodeError (LibraryText text)))"

definition notebook :: "(tdf, tfs, unit) env" where
  "notebook =
     \<lparr>os_path_exists = (\<lambda>x p. p \<in> set (dirs x)),
      os_makedirs = (\<lambda>x p. Inr (x\<lparr>dirs := dirs x @ [p]\<rparr>)),
      import_colab =
        (\<lambda>x. if colab x then Inr () else Inl (Exn ImportError (LibraryText ''google.colab''))),
      drive_mount = (\<lambda>x p. Inr (x\<lparr>dirs := dirs x @ [p]\<rparr>)),
      now_strftime = (\<lambda>x. ''20250101_120000''),
      now_str = (\<lambda>x. ''2025-01-01 12:00:00''),
      write_table = (\<lambda>x fmt d p. Inr (x\<lparr>files := files x @ [(p, fmt, d)]\<rparr>)),
      write_json = (\<lambda>x p m. Inr x),
      json_loads = t_json_loads,
      py_float = (\<lambda>t. None),
      py_int = (\<lambda>t. if t = ''0'' then Some 0 else if t = ''7'' then Some 7 else None)\<rparr>"

text \<open>A table with a missing value and a repeated row, and a state that holds it at address 0.\<close>

definition sample :: tdf where
  "sample = [(''a'', [Some 1, None, Some 1]), (''b'', [Some 2, Some 5, Some 2])]"

definition start :: "(tdf, unit, tfs) ustate" where
  "start =
     \<lparr>heap = [sample], df = 0, log_messages = [], stdout = [], calls = [],
      fs = \<lparr>dirs = [''/content/drive''], files = [], colab = True\<rparr>,
      base_save_path = ''/content/drive/MyDrive/processed_data/'',
      raw_df = 0, processed_df = None\<rparr>"

text \<open>A form with every checkbox checked, and one with the column selection checked only.\<close>

definition all_checked :: widgets where
  "all_checked =
     create_widgets\<lparr>cb_set_datetime_index := True, text_time_col := ''a'',
       cb_handle_missing := True, cb_convert_types := True, cb_remove_duplicates := True,
       cb_rename_columns := True, cb_select_columns := True, text_columns_to_keep := '' b ''\<rparr>"

definition select_checked :: widgets where
  "select_checked = create_widgets\<lparr>cb_select_columns := True\<rparr>"

text \<open>A user-supplied function: it returns a new table with one column.\<close>

definition one_column :: "addr \<Rightarrow> ((tdf, unit, tfs) ustate, pyobj) prog" where
  "one_column a = bnd (alloc [(''c'', [Some 1])]) (\<lambda>b. ret (DataFrameRef b))"

section \<open>Notions used in the statements and proofs\<close>

text \<open>The table the processor works on: the value of the object \<open>self.df\<close> refers to.\<close>

definition table :: "('df, 'f, 'z) pstate_scheme \<Rightarrow> 'df" where
  "table s = heap s ! df s"

text \<open>
  A relation between the state before and the state after a statement, which every run of
  the statement keeps; \<open>same f\<close> says that \<open>f\<close> of the state does not change.
\<close>

definition preorder :: "('s \<Rightarrow> 's \<Rightarrow> bool) \<Rightarrow> bool" where
  "preorder R = ((\<forall>s. R s s) \<and> (\<forall>a b c. R a b \<longrightarrow> R b c \<longrightarrow> R a c))"

definition preserves :: "('s \<Rightarrow> 's \<Rightarrow> bool) \<Rightarrow> ('s, 'a) prog \<Rightarrow> bool" where
  "preserves R m = (\<forall>s. R s (snd (m s)))"

definition same :: "('s \<Rightarrow> 'x) \<Rightarrow> 's \<Rightarrow> 's \<Rightarrow> bool" where
  "same f s s' = (f s' = f s)"

text \<open>
  What the body of a method of the processor does to the state: it prints, appends to
  the log, overwrites the object \<open>self.df\<close> refers to, or binds \<open>self.df\<close> to a new object.
\<close>

definition frame :: "(('df, 'f, 'z) pstate_scheme \<Rightarrow> ('df, 'f, 'z) pstate_scheme \<Rightarrow> bool) \<Rightarrow> bool" where
  "frame R =
     (preorder R
      \<and> (\<forall>s m. R s (s\<lparr>stdout := stdout s @ [m]\<rparr>))
      \<and> (\<forall>s m. R s (s\<lparr>log_messages := log_messages s @ [m]\<rparr>))
      \<and> (\<forall>s v. R s (s\<lparr>heap := (heap s)[df s := v]\<rparr>))
      \<and> (\<forall>s v. R s (s\<lparr>heap := heap s @ [v], df := length (heap s)\<rparr>)))"

text \<open>
  The steps of a click as changes of the state. \<open>say\<close> prints a line. \<open>attempt\<close> is what a
  section of the handler does with an operation: it prints the title, applies the
  operation to the state, and prints the exception if the operation raises; the state
  that results is the one the operation left. \<open>run_if\<close> applies a step when its checkbox
  is checked.
\<close>

definition say :: "'f line \<Rightarrow> ('df, 'f, 'z) pstate_scheme \<Rightarrow> ('df, 'f, 'z) pstate_scheme" where
  "say x s = s\<lparr>stdout := stdout s @ [x]\<rparr>"

definition attempt ::
  "call \<Rightarrow> (exn \<Rightarrow> ui_msg) \<Rightarrow> (('df, 'f, 'z) pstate_scheme, unit) prog \<Rightarrow>
   ('df, 'f, 'z) pstate_scheme \<Rightarrow> ('df, 'f, 'z) pstate_scheme" where
  "attempt c report m s =
     (case m (say (U (UiSection c)) s) of
        (Inl e, s') \<Rightarrow> say (U (report e)) s'
      | (Inr x, s') \<Rightarrow> s')"

definition run_if :: "bool \<Rightarrow> ('s \<Rightarrow> 's) \<Rightarrow> 's \<Rightarrow> 's" where
  "run_if c f s = (if c then f s else s)"

text \<open>The line printed for an exception, and for one in a section that parses JSON.\<close>

definition report_error :: "call \<Rightarrow> exn \<Rightarrow> ui_msg" where
  "report_error c e = UiError c (str_of e)"

definition report_json_error :: "call \<Rightarrow> exn \<Rightarrow> ui_msg" where
  "report_json_error c e =
     (if exn_class_of e = JSONDecodeError then UiJsonError c (str_of e)
      else UiError c (str_of e))"

text \<open>
  The state after \<open>self.processor = DataFrameProcessor(self.raw_df.copy())\<close>: two new
  objects with the value of the raw table, the processor on the second, its log started.
\<close>

definition fresh_processor ::
  "('df, 'ser, 'f) pandas \<Rightarrow> ('df, 'f, 'fs, 'z) ustate_scheme \<Rightarrow> ('df, 'f, 'fs, 'z) ustate_scheme" where
  "fresh_processor L s =
     s\<lparr>calls := calls s @ [Init],
       heap := heap s @ [heap s ! raw_df s, heap s ! raw_df s],
       df := Suc (length (heap s)),
       log_messages := [Created (pd_shape L (heap s ! raw_df s))],
       stdout := stdout s @ [P (Created (pd_shape L (heap s ! raw_df s)))]\<rparr>"

text \<open>
  The state after \<open>self.processed_df = self.processor.get_processed_df()\<close>: a new object
  with the value of the processor's table, and \<open>processed_df\<close> refers to it.
\<close>

definition retrieved ::
  "('df, 'ser, 'f) pandas \<Rightarrow> ('df, 'f, 'fs, 'z) ustate_scheme \<Rightarrow> ('df, 'f, 'fs, 'z) ustate_scheme" where
  "retrieved L s =
     s\<lparr>calls := calls s @ [GetProcessedDf],
       stdout := stdout s @ [P (ProcessedReturned (pd_shape L (table s)))],
       log_messages := log_messages s @ [ProcessedReturned (pd_shape L (table s))],
       heap := heap s @ [table s],
       processed_df := Some (length (heap s))\<rparr>"

text \<open>
  The state after the export: \<open>save_dataframe\<close> is given the object \<open>processed_df\<close> refers
  to, and the path it returns is printed when it is not empty.
\<close>

definition exported ::
  "('df, 'ser, 'f) pandas \<Rightarrow> ('df, 'fs, 'f) env \<Rightarrow> widgets \<Rightarrow>
   ('df, 'f, 'fs, 'z) ustate_scheme \<Rightarrow> ('df, 'f, 'fs, 'z) ustate_scheme" where
  "exported L E w s =
     (case save_dataframe L E (the (processed_df s)) (strip (text_save_filename_prefix w))
             (dropdown_save_format w) (cb_include_timestamp w) None
             (say (U (UiSection SaveDataframe)) s) of
        (Inl e, s') \<Rightarrow> say (U (UiError SaveDataframe (str_of e))) s'
      | (Inr file_path, s') \<Rightarrow> (if file_path \<noteq> [] then say (U (UiSaved file_path)) s' else s'))"





text \<open>A list of the state grows at its end only.\<close>

definition extends :: "('s \<Rightarrow> 'x list) \<Rightarrow> 's \<Rightarrow> 's \<Rightarrow> bool" where
  "extends f s s' = (\<exists>xs. f s' = f s @ xs)"

text \<open>
  A form on which datetime indexing fails (the table has no column z) and the steps after
  it go on: de-duplication, and the selection of column b.
\<close>

definition failing :: widgets where
  "failing =
     create_widgets\<lparr>cb_set_datetime_index := True, text_time_col := ''z'',
       cb_remove_duplicates := True, cb_select_columns := True, text_columns_to_keep := ''b''\<rparr>"

text \<open>
  The calls a caller can make on a processor, with their arguments, and the state a call
  leaves, whether it returns or raises.
\<close>

datatype ('df, 'f, 'z) operation =
    SetDatetimeIndexOp string string bool
  | HandleMissingValuesOp string "string list option" "'f pyval option" string
  | ConvertDataTypesOp json string
  | RemoveDuplicateRowsOp "string list option" keep
  | RenameColumnsOp json
  | SelectColumnsOp "string list"
  | ApplyCustomFunctionOp "addr \<Rightarrow> (('df, 'f, 'z) pstate_scheme, pyobj) prog"
  | GetProcessedDfOp

fun perform ::
  "('df, 'ser, 'f) pandas \<Rightarrow> ('df, 'f, 'z) operation \<Rightarrow>
   ('df, 'f, 'z) pstate_scheme \<Rightarrow> ('df, 'f, 'z) pstate_scheme" where
  "perform L (SetDatetimeIndexOp time_col errors infer) s =
     snd (set_datetime_index L time_col errors infer s)"
| "perform L (HandleMissingValuesOp strategy subset_cols fill_value method) s =
     snd (handle_missing_values L strategy subset_cols fill_value method s)"
| "perform L (ConvertDataTypesOp column_types errors) s =
     snd (convert_data_types L column_types errors s)"
| "perform L (RemoveDuplicateRowsOp subset' keep) s = snd (remove_duplicate_rows L subset' keep s)"
| "perform L (RenameColumnsOp rename_map) s = snd (rename_columns L rename_map s)"
| "perform L (SelectColumnsOp columns_to_keep) s = snd (select_columns L columns_to_keep s)"
| "perform L (ApplyCustomFunctionOp func) s = snd (apply_custom_function L func s)"
| "perform L GetProcessedDfOp s = snd (get_processed_df L s)"

text \<open>A statement that, when it returns, has appended a message to the log.\<close>

definition logs :: "(('df, 'f, 'z) pstate_scheme, 'a) prog \<Rightarrow> bool" where
  "logs m =
     (\<forall>s. case m s of
            (Inl e, s') \<Rightarrow> True
          | (Inr x, s') \<Rightarrow> length (log_messages s) < length (log_messages s'))"

text \<open>The method a call enters.\<close>

fun name :: "('df, 'f, 'z) operation \<Rightarrow> call" where
  "name (SetDatetimeIndexOp time_col errors infer) = SetDatetimeIndex"
| "name (HandleMissingValuesOp strategy subset_cols fill_value method) = HandleMissingValues"
| "name (ConvertDataTypesOp column_types errors) = ConvertDataTypes"
| "name (RemoveDuplicateRowsOp subset' keep) = RemoveDuplicateRows"
| "name (RenameColumnsOp rename_map) = RenameColumns"
| "name (SelectColumnsOp columns_to_keep) = SelectColumns"
| "name (ApplyCustomFunctionOp func) = ApplyCustomFunction"
| "name GetProcessedDfOp = GetProcessedDf"

text \<open>The methods whose source has the message: a message describes the step of its method.\<close>

fun emitters :: "'f proc_msg \<Rightarrow> call list" where
  "emitters (Created sh) = [Init]"
| "emitters (DatetimeIndexSet c) = [SetDatetimeIndex]"
| "emitters (ShapeChanged a b) = [SetDatetimeIndex]"
| "emitters (DatetimeIndexError r) = [SetDatetimeIndex]"
| "emitters (MissingHandled cs d) = [HandleMissingValues]"
| "emitters (MissingCounts a b) = [HandleMissingValues]"
| "emitters (MissingError r) = [HandleMissingValues]"
| "emitters (ColumnSkipped c) = [ConvertDataTypes]"
| "emitters (TypeConverted c a b) = [ConvertDataTypes]"
| "emitters (ConversionSkipped c a r) = [ConvertDataTypes]"
| "emitters (ConversionError r) = [ConvertDataTypes]"
| "emitters (DuplicatesRemoved n cs k) = [RemoveDuplicateRows]"
| "emitters (DuplicatesError r) = [RemoveDuplicateRows]"
| "emitters (Renamed m) = [RenameColumns]"
| "emitters (RenameError r) = [RenameColumns]"
| "emitters (ColumnsKept cs) = [SelectColumns]"
| "emitters (ColumnsRemoved cs) = [SelectColumns, ApplyCustomFunction]"
| "emitters (SelectError r) = [SelectColumns]"
| "emitters (CustomShapeChanged a b) = [ApplyCustomFunction]"
| "emitters (CustomDtypesChanged cs) = [ApplyCustomFunction]"
| "emitters (ColumnsAdded cs) = [ApplyCustomFunction]"
| "emitters CustomApplied = [ApplyCustomFunction]"
| "emitters (CustomError r) = [ApplyCustomFunction]"
| "emitters (ProcessedReturned sh) = [GetProcessedDf]"

definition describes :: "call \<Rightarrow> 'f proc_msg \<Rightarrow> bool" where
  "describes c m = (c \<in> set (emitters m))"

text \<open>The log grows at its end, by messages that satisfy \<open>ok\<close>.\<close>

definition appends ::
  "('f proc_msg \<Rightarrow> bool) \<Rightarrow> ('df, 'f, 'z) pstate_scheme \<Rightarrow> ('df, 'f, 'z) pstate_scheme \<Rightarrow> bool" where
  "appends ok s s' = (\<exists>ms. log_messages s' = log_messages s @ ms \<and> list_all ok ms)"

text \<open>A user-supplied function that leaves the log of the processor as it is.\<close>

definition keeps_log ::
  "(addr \<Rightarrow> (('df, 'f, 'z) pstate_scheme, pyobj) prog) \<Rightarrow> bool" where
  "keeps_log func = (\<forall>a. preserves (same log_messages) (func a))"

text \<open>Two calls on the sample: a renaming, and a function that returns what it is given.\<close>

definition rename_a :: "(tdf, unit, unit) operation" where
  "rename_a = RenameColumnsOp (JsonDict [(''a'', ''x'')])"

definition unchanged :: "addr \<Rightarrow> ((tdf, unit) pstate, pyobj) prog" where
  "unchanged a = ret (DataFrameRef a)"

definition processor :: "(tdf, unit) pstate" where
  "processor = \<lparr>heap = [sample], df = 0, log_messages = [], stdout = [], calls = []\<rparr>"

section \<open>Rules for statements\<close>

lemma preorder_same [simp]: "preorder (same f)"
  by (simp add: preorder_def same_def)

lemma preserves_ret: "preorder R \<Longrightarrow> preserves R (ret x)"
  by (simp add: preorder_def preserves_def ret_def)

lemma preserves_raise: "preorder R \<Longrightarrow> preserves R (raise e)"
  by (simp add: preorder_def preserves_def raise_def)

lemma preserves_lift: "preorder R \<Longrightarrow> preserves R (lift r)"
  by (simp add: preorder_def preserves_def lift_def)

lemma preserves_get: "preorder R \<Longrightarrow> preserves R (get f)"
  by (simp add: preorder_def preserves_def get_def)

lemma preserves_modify: "(\<And>s. R s (g s)) \<Longrightarrow> preserves R (modify g)"
  by (simp add: preserves_def modify_def)

lemma preserves_bnd:
  assumes "preorder R" "preserves R m" "\<And>x. preserves R (f x)"
  shows "preserves R (bnd m f)"
proof -
  have "R s (snd (bnd m f s))" for s
  proof (cases "m s")
    case (Pair r s')
    have a: "R s s'" using assms(2) Pair by (metis preserves_def snd_conv)
    show ?thesis
    proof (cases r)
      case (Inl e)
      then show ?thesis using a Pair by (simp add: bnd_def)
    next
      case (Inr x)
      have "R s' (snd (f x s'))" using assms(3) by (simp add: preserves_def)
      then show ?thesis using a Pair Inr assms(1) unfolding preorder_def bnd_def
        by (metis (no_types, lifting) old.prod.case old.sum.simps(6))
    qed
  qed
  then show ?thesis by (simp add: preserves_def)
qed

lemma preserves_sq:
  "preorder R \<Longrightarrow> preserves R m \<Longrightarrow> preserves R n \<Longrightarrow> preserves R (sq m n)"
  by (simp add: sq_def preserves_bnd)

lemma preserves_try_except:
  assumes "preorder R" "preserves R m" "\<And>e. preserves R (h e)"
  shows "preserves R (try_except m h)"
proof -
  have "R s (snd (try_except m h s))" for s
  proof (cases "m s")
    case (Pair r s')
    have a: "R s s'" using assms(2) Pair by (metis preserves_def snd_conv)
    show ?thesis
    proof (cases r)
      case (Inr x)
      then show ?thesis using a Pair by (simp add: try_except_def)
    next
      case (Inl e)
      have "R s' (snd (h e s'))" using assms(3) by (simp add: preserves_def)
      then show ?thesis using a Pair Inl assms(1) unfolding preorder_def try_except_def
        by (metis (no_types, lifting) old.prod.case old.sum.simps(5))
    qed
  qed
  then show ?thesis by (simp add: preserves_def)
qed

lemma preserves_for_each:
  "preorder R \<Longrightarrow> (\<And>x. preserves R (body x)) \<Longrightarrow> preserves R (for_each xs body)"
  by (induction xs) (simp_all add: preserves_ret preserves_sq)

lemma preserves_if:
  "(c \<Longrightarrow> preserves R a) \<Longrightarrow> (\<not> c \<Longrightarrow> preserves R b) \<Longrightarrow> preserves R (if c then a else b)"
  by simp

lemma preserves_case_option:
  "preserves R a \<Longrightarrow> (\<And>x. preserves R (b x)) \<Longrightarrow>
   preserves R (case v of None \<Rightarrow> a | Some x \<Rightarrow> b x)"
  by (cases v) simp_all

lemma preserves_case_json:
  "(\<And>x. preserves R (a x)) \<Longrightarrow> preserves R b \<Longrightarrow>
   preserves R (case v of JsonDict x \<Rightarrow> a x | JsonOther \<Rightarrow> b)"
  by (cases v) simp_all

lemma preserves_case_prod:
  "(\<And>x y. preserves R (a x y)) \<Longrightarrow> preserves R (case v of (x, y) \<Rightarrow> a x y)"
  by (cases v) simp

lemma preserves_case_pyobj:
  "(\<And>x. preserves R (a x)) \<Longrightarrow> preserves R b \<Longrightarrow>
   preserves R (case v of DataFrameRef x \<Rightarrow> a x | NotDataFrame \<Rightarrow> b)"
  by (cases v) simp_all

lemma preserves_on_fs:
  "preorder R \<Longrightarrow> (\<And>s x. R s (s\<lparr>fs := x\<rparr>)) \<Longrightarrow> preserves R (on_fs f)"
  by (auto simp add: preserves_def on_fs_def preorder_def split: sum.split)

text \<open>The statements of the processor's methods, under a relation that is a frame.\<close>

lemma frame_preorder: "frame R \<Longrightarrow> preorder R"
  by (simp add: frame_def)

lemma preserves_print: "frame R \<Longrightarrow> preserves R (print m)"
  by (simp add: frame_def print_def preserves_modify)

lemma preserves_priv_log: "frame R \<Longrightarrow> preserves R (priv_log m)"
  unfolding priv_log_def
  by (intro preserves_sq preserves_print preserves_modify) (simp_all add: frame_def)

lemma preserves_read_df: "frame R \<Longrightarrow> preserves R read_df"
  by (simp add: read_df_def preserves_get frame_def)

lemma preserves_mutate_df: "frame R \<Longrightarrow> preserves R (mutate_df v)"
  by (simp add: mutate_df_def preserves_modify frame_def)

lemma preserves_assign_df: "frame R \<Longrightarrow> preserves R (assign_df v)"
  by (simp add: assign_df_def alloc_def bind_df_def bnd_def modify_def preserves_def frame_def)

lemma preserves_mutate_with: "frame R \<Longrightarrow> preserves R (mutate_with f)"
  unfolding mutate_with_def
  by (intro preserves_bnd preserves_read_df preserves_lift preserves_mutate_df frame_preorder)

lemma preserves_rebind_with: "frame R \<Longrightarrow> preserves R (rebind_with f)"
  unfolding rebind_with_def
  by (intro preserves_bnd preserves_read_df preserves_lift preserves_assign_df frame_preorder)

lemmas preserves_rules =
  preserves_print preserves_priv_log preserves_read_df preserves_mutate_df preserves_assign_df
  preserves_mutate_with preserves_rebind_with
  preserves_ret preserves_raise preserves_lift preserves_get
  preserves_bnd preserves_sq preserves_try_except preserves_for_each
  preserves_if preserves_case_option preserves_case_json preserves_case_prod
  preserves_case_pyobj frame_preorder

section \<open>The methods, statement by statement\<close>

lemma body_intro: "preserves R m \<Longrightarrow> \<exists>n. sq c m = sq c n \<and> preserves R n"
  by blast

lemma set_datetime_index_body:
  "frame R \<Longrightarrow> \<exists>m. set_datetime_index L time_col errors infer = sq (called SetDatetimeIndex) m
      \<and> preserves R m"
  unfolding set_datetime_index_def Let_def
  by (rule body_intro) (intro preserves_rules; assumption)

lemma handle_missing_values_body:
  "frame R \<Longrightarrow> \<exists>m. handle_missing_values L strategy subset_cols fill_value method
       = sq (called HandleMissingValues) m \<and> preserves R m"
  unfolding handle_missing_values_def Let_def apply_strategy_def missing_after_def
    fill_all_or_subset_def update_subset_def fill_stat_def check_columns_def
  by (rule body_intro) (intro preserves_rules; assumption)

lemma convert_data_types_body:
  "frame R \<Longrightarrow> \<exists>m. convert_data_types L column_types errors
       = sq (called ConvertDataTypes) m \<and> preserves R m"
  unfolding convert_data_types_def Let_def convert_one_def convert_column_def
  by (rule body_intro) (intro preserves_rules; assumption)

lemma remove_duplicate_rows_body:
  "frame R \<Longrightarrow> \<exists>m. remove_duplicate_rows L subset' keep
       = sq (called RemoveDuplicateRows) m \<and> preserves R m"
  unfolding remove_duplicate_rows_def Let_def check_columns_def
  by (rule body_intro) (intro preserves_rules; assumption)

lemma rename_columns_body:
  "frame R \<Longrightarrow> \<exists>m. rename_columns L rename_map = sq (called RenameColumns) m \<and> preserves R m"
  unfolding rename_columns_def Let_def
  by (rule body_intro) (intro preserves_rules; assumption)

lemma select_columns_body:
  "frame R \<Longrightarrow> \<exists>m. select_columns L columns_to_keep = sq (called SelectColumns) m \<and> preserves R m"
  unfolding select_columns_def Let_def
  by (rule body_intro) (intro preserves_rules; assumption)

lemma frame_same_calls: "frame (same calls)"
  by (simp add: frame_def same_def)

lemma calls_after_called:
  assumes "\<exists>m. p = sq (called c) m \<and> preserves (same calls) m"
  shows "calls (snd (p s)) = calls s @ [c]"
proof -
  from assms obtain m where p: "p = sq (called c) m" and m: "preserves (same calls) m" by blast
  have "calls (snd (m t)) = calls t" for t
    using m by (simp add: preserves_def same_def)
  then show ?thesis
    by (simp add: p sq_def bnd_def called_def modify_def)
qed

lemma set_datetime_index_calls:
  "calls (snd (set_datetime_index L time_col errors infer s)) = calls s @ [SetDatetimeIndex]"
  by (rule calls_after_called) (rule set_datetime_index_body [OF frame_same_calls])

lemma handle_missing_values_calls:
  "calls (snd (handle_missing_values L strategy subset_cols fill_value method s))
     = calls s @ [HandleMissingValues]"
  by (rule calls_after_called) (rule handle_missing_values_body [OF frame_same_calls])

lemma convert_data_types_calls:
  "calls (snd (convert_data_types L column_types errors s)) = calls s @ [ConvertDataTypes]"
  by (rule calls_after_called) (rule convert_data_types_body [OF frame_same_calls])

lemma remove_duplicate_rows_calls:
  "calls (snd (remove_duplicate_rows L subset' keep s)) = calls s @ [RemoveDuplicateRows]"
  by (rule calls_after_called) (rule remove_duplicate_rows_body [OF frame_same_calls])

lemma rename_columns_calls:
  "calls (snd (rename_columns L rename_map s)) = calls s @ [RenameColumns]"
  by (rule calls_after_called) (rule rename_columns_body [OF frame_same_calls])

lemma select_columns_calls:
  "calls (snd (select_columns L columns_to_keep s)) = calls s @ [SelectColumns]"
  by (rule calls_after_called) (rule select_columns_body [OF frame_same_calls])

text \<open>A handler that only prints: the exception goes no further.\<close>

lemma try_print:
  "try_except m (\<lambda>e. print (x e)) s =
     (case m s of (Inl e, s') \<Rightarrow> (Inr (), s'\<lparr>stdout := stdout s' @ [x e]\<rparr>)
      | (Inr v, s') \<Rightarrow> (Inr v, s'))"
  by (simp add: try_except_def print_def modify_def split: prod.split sum.split)

lemma try_print_returns: "fst (try_except m (\<lambda>e. print (x e)) s) = Inr ()"
  by (simp add: try_print split: prod.split sum.split)

lemma try_print_calls: "calls (snd (try_except m (\<lambda>e. print (x e)) s)) = calls (snd (m s))"
  by (simp add: try_print split: prod.split sum.split)

lemma sq_print: "sq (print x) m s = m (s\<lparr>stdout := stdout s @ [x]\<rparr>)"
  by (simp add: sq_def bnd_def print_def modify_def)

lemma print_apply: "print x s = (Inr (), s\<lparr>stdout := stdout s @ [x]\<rparr>)"
  by (simp add: print_def modify_def)

lemma sq_returns: "fst (m s) = Inr () \<Longrightarrow> sq m n s = n (snd (m s))"
  by (cases "m s") (simp add: sq_def bnd_def)

lemma datetime_section_returns: "fst (datetime_section L w s) = Inr ()"
  by (simp add: datetime_section_def Let_def sq_print try_print_returns ret_def)

lemma datetime_section_calls:
  "calls (snd (datetime_section L w s)) =
     calls s @ (if cb_set_datetime_index w then [SetDatetimeIndex] else [])"
  by (simp add: datetime_section_def Let_def sq_print try_print_calls ret_def
      set_datetime_index_calls)

lemma missing_section_returns: "fst (missing_section L E w s) = Inr ()"
  by (simp add: missing_section_def Let_def sq_print try_print_returns ret_def)

lemma missing_section_calls:
  "calls (snd (missing_section L E w s)) =
     calls s @ (if cb_handle_missing w then [HandleMissingValues] else [])"
  by (simp add: missing_section_def Let_def sq_print try_print_calls ret_def
      handle_missing_values_calls)

lemma duplicates_section_returns: "fst (duplicates_section L w s) = Inr ()"
  by (simp add: duplicates_section_def Let_def sq_print try_print_returns ret_def)

lemma duplicates_section_calls:
  "calls (snd (duplicates_section L w s)) =
     calls s @ (if cb_remove_duplicates w then [RemoveDuplicateRows] else [])"
  by (simp add: duplicates_section_def Let_def sq_print try_print_calls ret_def
      remove_duplicate_rows_calls)

lemma select_section_returns: "fst (select_section L w s) = Inr ()"
  by (simp add: select_section_def Let_def sq_print try_print_returns ret_def print_apply)

lemma select_section_calls:
  "calls (snd (select_section L w s)) =
     calls s @ (if cb_select_columns w \<and> strip (text_columns_to_keep w) \<noteq> []
                then [SelectColumns] else [])"
  by (simp add: select_section_def Let_def sq_print try_print_calls ret_def
      select_columns_calls print_apply)

lemma json_handler:
  "(\<lambda>e. if c e then print (x e) else print (y e)) = (\<lambda>e. print (if c e then x e else y e))"
  by auto

lemma convert_section_returns: "fst (convert_section L E w s) = Inr ()"
  by (simp add: convert_section_def Let_def sq_print json_handler try_print_returns ret_def)

lemma convert_section_calls:
  "calls (snd (convert_section L E w s)) =
     calls s @ (if cb_convert_types w \<and> \<not> isl (json_loads E (textarea_column_types w))
                then [ConvertDataTypes] else [])"
  by (cases "json_loads E (textarea_column_types w)")
     (simp_all add: convert_section_def Let_def sq_print json_handler try_print_calls ret_def
        bnd_def lift_def convert_data_types_calls)

lemma rename_section_returns: "fst (rename_section L E w s) = Inr ()"
  by (simp add: rename_section_def Let_def sq_print json_handler try_print_returns ret_def)

lemma rename_section_calls:
  "calls (snd (rename_section L E w s)) =
     calls s @ (if cb_rename_columns w \<and> \<not> isl (json_loads E (textarea_rename_map w))
                then [RenameColumns] else [])"
  by (cases "json_loads E (textarea_rename_map w)")
     (simp_all add: rename_section_def Let_def sq_print json_handler try_print_calls ret_def
        bnd_def lift_def rename_columns_calls)


lemma DataFrameProcessor_run:
  "DataFrameProcessor L a s =
     (Inr (), s\<lparr>calls := calls s @ [Init], heap := heap s @ [heap s ! a], df := length (heap s),
               log_messages := [Created (pd_shape L (heap s ! a))],
               stdout := stdout s @ [P (Created (pd_shape L (heap s ! a)))]\<rparr>)"
  by (simp add: DataFrameProcessor_def sq_def bnd_def called_def modify_def copy_def get_def
      alloc_def bind_df_def read_df_def priv_log_def print_def)

lemma get_processed_df_run:
  "get_processed_df L s =
     (Inr (length (heap s)),
      s\<lparr>calls := calls s @ [GetProcessedDf],
        stdout := stdout s @ [P (ProcessedReturned (pd_shape L (table s)))],
        log_messages := log_messages s @ [ProcessedReturned (pd_shape L (table s))],
        heap := heap s @ [table s]\<rparr>)"
  by (simp add: get_processed_df_def sq_def bnd_def called_def modify_def copy_def get_def
      alloc_def read_df_def priv_log_def print_def table_def)

lemma save_dataframe_body:
  "frame R \<Longrightarrow> (\<And>s x. R s (s\<lparr>fs := x\<rparr>)) \<Longrightarrow>
   \<exists>m. save_dataframe L E a filename_prefix file_format include_timestamp custom_metadata
        = sq (called SaveDataframe) (try_except m (\<lambda>e. sq (print (D (SaveError (str_of e)))) (ret [])))
      \<and> preserves R m"
  unfolding save_dataframe_def Let_def ensure_drive_mounted_def
  apply (rule exI, rule conjI, rule refl)
  apply (intro preserves_rules preserves_on_fs; assumption?)
  done

lemma save_dataframe_shape:
  "\<exists>m. save_dataframe L E a filename_prefix file_format include_timestamp custom_metadata
        = sq (called SaveDataframe) (try_except m (\<lambda>e. sq (print (D (SaveError (str_of e)))) (ret [])))
      \<and> preserves (same calls) m"
  by (rule save_dataframe_body [OF frame_same_calls]) (simp add: same_def)

lemma sq_called: "sq (called c) m s = m (s\<lparr>calls := calls s @ [c]\<rparr>)"
  by (simp add: sq_def bnd_def called_def modify_def)

lemma try_print_ret:
  "\<exists>p. fst (try_except m (\<lambda>e. sq (print (x e)) (ret [])) t) = Inr (p::string)"
  by (cases "m t") (auto simp add: try_except_def sq_def bnd_def print_apply ret_def split: sum.split)

lemma save_dataframe_returns:
  fixes s :: "('df, 'f, 'fs, 'z) ustate_scheme"
  shows "\<exists>p. fst (save_dataframe L E a filename_prefix file_format include_timestamp
                   custom_metadata s) = Inr p"
proof -
  obtain m where "(save_dataframe L E a filename_prefix file_format include_timestamp
       custom_metadata :: (('df, 'f, 'fs, 'z) ustate_scheme, string) prog)
        = sq (called SaveDataframe) (try_except m (\<lambda>e. sq (print (D (SaveError (str_of e)))) (ret [])))"
    using save_dataframe_shape by blast
  then show ?thesis
    using try_print_ret by (simp add: sq_called)
qed

lemma save_dataframe_calls:
  fixes s :: "('df, 'f, 'fs, 'z) ustate_scheme"
  shows "calls (snd (save_dataframe L E a filename_prefix file_format include_timestamp
                       custom_metadata s)) = calls s @ [SaveDataframe]"
proof -
  obtain m where m: "(save_dataframe L E a filename_prefix file_format include_timestamp
       custom_metadata :: (('df, 'f, 'fs, 'z) ustate_scheme, string) prog)
        = sq (called SaveDataframe) (try_except m (\<lambda>e. sq (print (D (SaveError (str_of e)))) (ret [])))"
      and p: "preserves (same calls) m"
    using save_dataframe_shape by blast
  have "preserves (same calls) (try_except m (\<lambda>e. sq (print (D (SaveError (str_of e)))) (ret [])))"
    by (intro preserves_rules p frame_same_calls)
  then show ?thesis
    by (simp add: m sq_called preserves_def same_def)
qed

lemma save_and_report_calls:
  "calls (snd (bnd (save_dataframe L E a p f i c)
                 (\<lambda>file_path. if file_path \<noteq> [] then print (U (UiSaved file_path)) else ret ()) t))
      = calls t @ [SaveDataframe]"
  using save_dataframe_returns [of L E a p f i c t] save_dataframe_calls [of L E a p f i c t]
  by (cases "save_dataframe L E a p f i c t") (auto simp add: bnd_def print_apply ret_def)

lemma save_section_returns: "fst (save_section L E w s) = Inr ()"
  by (simp add: save_section_def Let_def sq_print try_print_returns)

lemma save_section_calls: "calls (snd (save_section L E w s)) = calls s @ [SaveDataframe]"
proof -
  have "bnd (get processed_df) f t = f (processed_df t) t" for f :: "addr option \<Rightarrow> (('a, 'b, 'c, 'd) ustate_scheme, unit) prog" and t
    by (simp add: bnd_def get_def)
  then show ?thesis
    by (simp add: save_section_def Let_def sq_print try_print_calls save_and_report_calls)
qed


lemma click_returns: "fst (on_process_button_clicked L E w s) = Inr ()"
  by (simp add: on_process_button_clicked_def sq_print sq_returns bnd_def get_def copy_def
      alloc_def DataFrameProcessor_run datetime_section_returns missing_section_returns
      convert_section_returns duplicates_section_returns rename_section_returns
      select_section_returns get_processed_df_run modify_def save_section_returns print_apply)

lemma click_calls:
  "calls (snd (on_process_button_clicked L E w s)) =
     calls s @ [Init]
     @ (if cb_set_datetime_index w then [SetDatetimeIndex] else [])
     @ (if cb_handle_missing w then [HandleMissingValues] else [])
     @ (if cb_convert_types w \<and> \<not> isl (json_loads E (textarea_column_types w))
        then [ConvertDataTypes] else [])
     @ (if cb_remove_duplicates w then [RemoveDuplicateRows] else [])
     @ (if cb_rename_columns w \<and> \<not> isl (json_loads E (textarea_rename_map w))
        then [RenameColumns] else [])
     @ (if cb_select_columns w \<and> strip (text_columns_to_keep w) \<noteq> []
        then [SelectColumns] else [])
     @ [GetProcessedDf, SaveDataframe]"
  by (simp add: on_process_button_clicked_def sq_print sq_returns bnd_def get_def copy_def
      alloc_def DataFrameProcessor_run datetime_section_returns missing_section_returns
      convert_section_returns duplicates_section_returns rename_section_returns
      select_section_returns get_processed_df_run modify_def save_section_returns print_apply
      datetime_section_calls missing_section_calls convert_section_calls
      duplicates_section_calls rename_section_calls select_section_calls save_section_calls)

section \<open>Running the methods on a state\<close>

lemmas run_defs = bnd_def sq_def ret_def raise_def try_except_def lift_def get_def modify_def
  read_df_def print_def called_def priv_log_def mutate_df_def alloc_def bind_df_def
  assign_df_def copy_def rebind_with_def mutate_with_def

lemmas form_defs = create_widgets_def all_checked_def select_checked_def strip_def isspace_def

lemmas notebook_defs = notebook_def t_json_loads_def quoted_def start_def

lemma check_columns_run:
  "check_columns L cols s =
     (case filter (\<lambda>col. col \<notin> set (pd_columns L (table s))) cols of
        [] \<Rightarrow> (Inr (), s)
      | col # _ \<Rightarrow> (Inl (Exn ValueError (ColumnNotFound col)), s))"
  unfolding check_columns_def
  by (induction cols) (simp_all add: run_defs table_def split: list.split)

lemma handle_missing_values_unsupported:
  "strategy \<notin> set valid_strategies \<Longrightarrow>
   handle_missing_values L strategy subset_cols fill_value method s =
     (Inl (Exn ValueError (UnsupportedStrategy strategy)),
      s\<lparr>calls := calls s @ [HandleMissingValues],
        stdout := stdout s @ [P (MissingError (UnsupportedStrategy strategy))],
        log_messages := log_messages s @ [MissingError (UnsupportedStrategy strategy)]\<rparr>)"
  by (simp add: handle_missing_values_def run_defs)

lemma handle_missing_values_absent:
  assumes "strategy \<in> set valid_strategies" "truthy subset_cols"
    "filter (\<lambda>col. col \<notin> set (pd_columns L (table s))) (the_list subset_cols) = col # rest"
  shows "handle_missing_values L strategy subset_cols fill_value method s =
     (Inl (Exn ValueError (ColumnNotFound col)),
      s\<lparr>calls := calls s @ [HandleMissingValues],
        stdout := stdout s @ [P (MissingError (ColumnNotFound col))],
        log_messages := log_messages s @ [MissingError (ColumnNotFound col)]\<rparr>)"
  using assms
  by (simp add: handle_missing_values_def check_columns_run table_def
      bnd_def sq_def raise_def try_except_def called_def modify_def priv_log_def print_def)

lemma rename_columns_absent:
  assumes "filter (\<lambda>col. col \<notin> set (pd_columns L (table s))) (map fst items) = missing"
    "missing \<noteq> []"
  shows "rename_columns L (JsonDict items) s =
      (Inl (Exn KeyError (RenameColumnsNotFound missing)),
       s\<lparr>calls := calls s @ [RenameColumns],
         stdout := stdout s @ [P (RenameError (RenameColumnsNotFound missing))],
         log_messages := log_messages s @ [RenameError (RenameColumnsNotFound missing)]\<rparr>)"
  using assms
  by (simp add: rename_columns_def run_defs Let_def table_def)

lemma select_columns_absent:
  assumes "filter (\<lambda>col. col \<notin> set (pd_columns L (table s))) columns_to_keep = missing"
    "missing \<noteq> []"
  shows "select_columns L columns_to_keep s =
      (Inl (Exn ValueError (SelectColumnsNotFound missing)),
       s\<lparr>calls := calls s @ [SelectColumns],
         stdout := stdout s @ [P (SelectError (SelectColumnsNotFound missing))],
         log_messages := log_messages s @ [SelectError (SelectColumnsNotFound missing)]\<rparr>)"
  using assms
  by (simp add: select_columns_def run_defs Let_def table_def)

lemma filter_absent_nonempty:
  "\<not> set cols \<subseteq> set present \<Longrightarrow> filter (\<lambda>col. col \<notin> set present) cols \<noteq> []"
  by (auto simp add: filter_empty_conv)

lemma sample_columns: "pd_columns tables (table start) = [''a'', ''b'']"
  by (simp add: tables_def table_def start_def sample_def)

lemma apply_custom_function_result:
  assumes "func (df s) (s\<lparr>calls := calls s @ [ApplyCustomFunction]\<rparr>) = (Inr (DataFrameRef a), s')"
  shows "fst (apply_custom_function L func s) = Inr ()
     \<and> df (snd (apply_custom_function L func s)) = a
     \<and> heap (snd (apply_custom_function L func s)) = heap s'"
  using assms
  by (simp add: apply_custom_function_def Let_def run_defs)

section \<open>The user-supplied transform\<close>

text \<open>
  Claim C4, as the code has it. No click calls \<open>apply_custom_function\<close>, whatever the
  form holds: the method is reached through the processor only. When it is called and the
  function returns a DataFrame, the method returns normally and \<open>self.df\<close> is the object
  the function returned.
\<close>

theorem custom_function_not_in_click:
  "ApplyCustomFunction \<notin> set (drop (length (calls s)) (calls (snd (on_process_button_clicked L E w s))))
   \<and> (func (df p) (p\<lparr>calls := calls p @ [ApplyCustomFunction]\<rparr>) = (Inr (DataFrameRef a), p')
        \<longrightarrow> fst (apply_custom_function L func p) = Inr ()
          \<and> df (snd (apply_custom_function L func p)) = a
          \<and> heap (snd (apply_custom_function L func p)) = heap p')"
  by (simp add: click_calls apply_custom_function_result)

theorem custom_function_not_in_click_witness:
  "ApplyCustomFunction \<notin> set (calls (snd (on_process_button_clicked tables notebook all_checked start)))
   \<and> one_column (df start) (start\<lparr>calls := calls start @ [ApplyCustomFunction]\<rparr>)
       = (Inr (DataFrameRef 1), start\<lparr>calls := [ApplyCustomFunction], heap := [sample, [(''c'', [Some 1])]]\<rparr>)
   \<and> fst (apply_custom_function tables one_column start) = Inr ()
   \<and> df (snd (apply_custom_function tables one_column start)) = 1
   \<and> heap (snd (apply_custom_function tables one_column start)) = [sample, [(''c'', [Some 1])]]"
proof -
  have f: "one_column (df start) (start\<lparr>calls := calls start @ [ApplyCustomFunction]\<rparr>)
       = (Inr (DataFrameRef 1), start\<lparr>calls := [ApplyCustomFunction], heap := [sample, [(''c'', [Some 1])]]\<rparr>)"
    by (simp add: one_column_def start_def run_defs)
  show ?thesis
    using custom_function_not_in_click [of start tables notebook all_checked one_column start 1
        "start\<lparr>calls := [ApplyCustomFunction], heap := [sample, [(''c'', [Some 1])]]\<rparr>"] f
    by (simp add: start_def)
qed

text \<open>
  Claim C4 as stated fails: there is no selection of the form for which a click calls the
  user-supplied transform.
\<close>

theorem no_selection_applies_custom_function:
  "\<not> (\<exists>w. ApplyCustomFunction \<in> set (calls (snd (on_process_button_clicked tables notebook w start))))"
  by (simp add: click_calls start_def)

section \<open>Failed validation\<close>

text \<open>
  Claim C10. \<open>handle_missing_values\<close> with a strategy that is not supported, or with a
  subset column that the table does not have, and \<open>rename_columns\<close> and \<open>select_columns\<close>
  with a column name that the table does not have, raise, and leave the store of tables
  and \<open>self.df\<close> as they were.
\<close>

theorem failed_validation_leaves_table:
  "(strategy \<notin> set valid_strategies
      \<or> (truthy subset_cols \<and> \<not> set (the_list subset_cols) \<subseteq> set (pd_columns L (table s)))
    \<longrightarrow> isl (fst (handle_missing_values L strategy subset_cols fill_value method s))
        \<and> heap (snd (handle_missing_values L strategy subset_cols fill_value method s)) = heap s
        \<and> df (snd (handle_missing_values L strategy subset_cols fill_value method s)) = df s)
   \<and> (\<not> fst ` set rename_map \<subseteq> set (pd_columns L (table s))
    \<longrightarrow> isl (fst (rename_columns L (JsonDict rename_map) s))
        \<and> heap (snd (rename_columns L (JsonDict rename_map) s)) = heap s
        \<and> df (snd (rename_columns L (JsonDict rename_map) s)) = df s)
   \<and> (\<not> set columns_to_keep \<subseteq> set (pd_columns L (table s))
    \<longrightarrow> isl (fst (select_columns L columns_to_keep s))
        \<and> heap (snd (select_columns L columns_to_keep s)) = heap s
        \<and> df (snd (select_columns L columns_to_keep s)) = df s)"
proof (intro conjI impI)
  assume a: "strategy \<notin> set valid_strategies
      \<or> (truthy subset_cols \<and> \<not> set (the_list subset_cols) \<subseteq> set (pd_columns L (table s)))"
  let ?r = "handle_missing_values L strategy subset_cols fill_value method s"
  have "isl (fst ?r) \<and> heap (snd ?r) = heap s \<and> df (snd ?r) = df s"
  proof (cases "strategy \<in> set valid_strategies")
    case False
    then show ?thesis by (simp add: handle_missing_values_unsupported)
  next
    case True
    with a have t: "truthy subset_cols"
      and n: "\<not> set (the_list subset_cols) \<subseteq> set (pd_columns L (table s))" by auto
    from filter_absent_nonempty [OF n] obtain col rest where
      "filter (\<lambda>col. col \<notin> set (pd_columns L (table s))) (the_list subset_cols) = col # rest"
      by (cases "filter (\<lambda>col. col \<notin> set (pd_columns L (table s))) (the_list subset_cols)") auto
    from handle_missing_values_absent [OF True t this] show ?thesis by simp
  qed
  then show "isl (fst ?r)" "heap (snd ?r) = heap s" "df (snd ?r) = df s" by simp_all
next
  assume n: "\<not> fst ` set rename_map \<subseteq> set (pd_columns L (table s))"
  let ?r = "rename_columns L (JsonDict rename_map) s"
  have "filter (\<lambda>col. col \<notin> set (pd_columns L (table s))) (map fst rename_map) \<noteq> []"
    using n by (intro filter_absent_nonempty) simp
  from rename_columns_absent [OF refl this]
  have "isl (fst ?r) \<and> heap (snd ?r) = heap s \<and> df (snd ?r) = df s" by simp
  then show "isl (fst ?r)" "heap (snd ?r) = heap s" "df (snd ?r) = df s" by simp_all
next
  assume n: "\<not> set columns_to_keep \<subseteq> set (pd_columns L (table s))"
  let ?r = "select_columns L columns_to_keep s"
  from select_columns_absent [OF refl filter_absent_nonempty [OF n]]
  have "isl (fst ?r) \<and> heap (snd ?r) = heap s \<and> df (snd ?r) = df s" by simp
  then show "isl (fst ?r)" "heap (snd ?r) = heap s" "df (snd ?r) = df s" by simp_all
qed

theorem failed_validation_leaves_table_witness:
  "''mode'' \<notin> set valid_strategies
   \<and> isl (fst (handle_missing_values tables ''mode'' None None ''linear'' start))
   \<and> heap (snd (handle_missing_values tables ''mode'' None None ''linear'' start)) = heap start
   \<and> df (snd (handle_missing_values tables ''mode'' None None ''linear'' start)) = df start
   \<and> \<not> fst ` set [(''z'', ''y'')] \<subseteq> set (pd_columns tables (table start))
   \<and> isl (fst (rename_columns tables (JsonDict [(''z'', ''y'')]) start))
   \<and> heap (snd (rename_columns tables (JsonDict [(''z'', ''y'')]) start)) = heap start
   \<and> df (snd (rename_columns tables (JsonDict [(''z'', ''y'')]) start)) = df start
   \<and> \<not> set [''a'', ''z''] \<subseteq> set (pd_columns tables (table start))
   \<and> isl (fst (select_columns tables [''a'', ''z''] start))
   \<and> heap (snd (select_columns tables [''a'', ''z''] start)) = heap start
   \<and> df (snd (select_columns tables [''a'', ''z''] start)) = df start"
  using failed_validation_leaves_table [of "''mode''" None tables start None "''linear''"
      "[(''z'', ''y'')]" "[''a'', ''z'']"]
  by (simp add: sample_columns valid_strategies_def)

section \<open>The sections of a click as steps\<close>

lemma sq_say: "sq (print x) m s = m (say x s)"
  by (simp add: sq_print say_def)

lemma print_say: "print x s = (Inr (), say x s)"
  by (simp add: print_apply say_def)

lemma try_report:
  "try_except m (\<lambda>e. print (U (report e))) (say (U (UiSection c)) s)
     = (Inr (), attempt c report m s)"
  by (simp add: try_print attempt_def say_def split: prod.split sum.split)

lemma try_report_error:
  "try_except m (\<lambda>e. print (U (UiError c (str_of e)))) (say (U (UiSection c)) s)
     = (Inr (), attempt c (report_error c) m s)"
  using try_report [of m "report_error c" c s] by (simp add: report_error_def)

lemma datetime_section_run:
  "datetime_section L w s =
     (Inr (), run_if (cb_set_datetime_index w)
        (attempt SetDatetimeIndex (report_error SetDatetimeIndex)
           (set_datetime_index L (strip (text_time_col w)) (dropdown_time_errors w)
              (cb_infer_datetime_format w))) s)"
  by (simp add: datetime_section_def Let_def sq_say run_if_def ret_def try_report_error)

lemma missing_section_run:
  "missing_section L E w s =
     (Inr (), run_if (cb_handle_missing w)
        (attempt HandleMissingValues (report_error HandleMissingValues)
           (handle_missing_values L (dropdown_missing_strategy w)
              (column_list (strip (text_missing_subset_cols w)))
              (if dropdown_missing_strategy w = ''fill_constant''
               then Some (parse_fill_value E (strip (text_missing_fill_value w))) else None)
              (if dropdown_missing_strategy w = ''interpolate''
               then dropdown_interpolate_method w else ''linear''))) s)"
  by (simp add: missing_section_def Let_def sq_say run_if_def ret_def try_report_error)

lemma duplicates_section_run:
  "duplicates_section L w s =
     (Inr (), run_if (cb_remove_duplicates w)
        (attempt RemoveDuplicateRows (report_error RemoveDuplicateRows)
           (remove_duplicate_rows L (column_list (strip (text_duplicates_subset w)))
              (dropdown_duplicates_keep w))) s)"
  by (simp add: duplicates_section_def Let_def sq_say run_if_def ret_def try_report_error)

lemma select_section_run:
  "select_section L w s =
     (Inr (), run_if (cb_select_columns w)
        (if strip (text_columns_to_keep w) \<noteq> []
         then attempt SelectColumns (report_error SelectColumns)
                (select_columns L (map strip (split CHR '','' (strip (text_columns_to_keep w)))))
         else say (U UiSelectSkipped) \<circ> say (U (UiSection SelectColumns))) s)"
  by (simp add: select_section_def Let_def sq_say run_if_def ret_def try_report_error print_say)

lemma json_handler_report:
  "(\<lambda>e. if exn_class_of e = JSONDecodeError then print (U (UiJsonError c (str_of e)))
        else print (U (UiError c (str_of e))))
   = (\<lambda>e. print (U (report_json_error c e)))"
  by (auto simp add: report_json_error_def)

lemma try_json:
  "try_except (bnd (lift r) f) (\<lambda>e. print (U (report e))) (say (U (UiSection c)) s) =
     (Inr (), (case r of
        Inl e \<Rightarrow> (say (U (report e)) \<circ> say (U (UiSection c))) s
      | Inr x \<Rightarrow> attempt c report (f x) s))"
  by (cases r)
     (simp_all add: try_print attempt_def say_def bnd_def lift_def split: prod.split sum.split)

lemma convert_section_run:
  "convert_section L E w s =
     (Inr (), run_if (cb_convert_types w)
        (case json_loads E (textarea_column_types w) of
           Inl e \<Rightarrow> say (U (report_json_error ConvertDataTypes e))
                    \<circ> say (U (UiSection ConvertDataTypes))
         | Inr column_types \<Rightarrow>
             attempt ConvertDataTypes (report_json_error ConvertDataTypes)
               (convert_data_types L column_types (dropdown_convert_errors w))) s)"
  by (cases "json_loads E (textarea_column_types w)")
     (simp_all add: convert_section_def Let_def sq_say run_if_def ret_def
        json_handler_report try_json)

lemma rename_section_run:
  "rename_section L E w s =
     (Inr (), run_if (cb_rename_columns w)
        (case json_loads E (textarea_rename_map w) of
           Inl e \<Rightarrow> say (U (report_json_error RenameColumns e))
                    \<circ> say (U (UiSection RenameColumns))
         | Inr rename_map \<Rightarrow>
             attempt RenameColumns (report_json_error RenameColumns)
               (rename_columns L rename_map)) s)"
  by (cases "json_loads E (textarea_rename_map w)")
     (simp_all add: rename_section_def Let_def sq_say run_if_def ret_def
        json_handler_report try_json)

lemma save_section_run: "save_section L E w s = (Inr (), exported L E w s)"
proof -
  let ?t = "say (U (UiSection SaveDataframe)) s"
  let ?save = "save_dataframe L E (the (processed_df s)) (strip (text_save_filename_prefix w))
                 (dropdown_save_format w) (cb_include_timestamp w) None"
  have p: "processed_df ?t = processed_df s" by (simp add: say_def)
  obtain r s' where r: "?save ?t = (r, s')" by (cases "?save ?t")
  show ?thesis
    using r p
    by (cases r)
       (simp_all add: save_section_def Let_def sq_say try_print exported_def bnd_def get_def
          print_say ret_def say_def)
qed

lemma fresh_processor_run:
  "bnd (get raw_df) (\<lambda>raw. bnd (copy raw) (DataFrameProcessor L)) s = (Inr (), fresh_processor L s)"
  by (simp add: bnd_def get_def copy_def alloc_def DataFrameProcessor_run fresh_processor_def
      nth_append)

lemma retrieved_run:
  "bnd (get_processed_df L) (\<lambda>a. modify (\<lambda>s. s\<lparr>processed_df := Some a\<rparr>)) s
     = (Inr (), retrieved L s)"
  by (simp add: bnd_def get_processed_df_run modify_def retrieved_def)

lemma sq_run: "m s = (Inr (), s') \<Longrightarrow> sq m n s = n s'"
  by (simp add: sq_def bnd_def)

lemma click_run:
  "on_process_button_clicked L E w s =
    (Inr (),
     (say (U UiDone)
      \<circ> exported L E w
      \<circ> retrieved L
      \<circ> run_if (cb_select_columns w)
          (if strip (text_columns_to_keep w) \<noteq> []
           then attempt SelectColumns (report_error SelectColumns)
                  (select_columns L (map strip (split CHR '','' (strip (text_columns_to_keep w)))))
           else say (U UiSelectSkipped) \<circ> say (U (UiSection SelectColumns)))
      \<circ> run_if (cb_rename_columns w)
          (case json_loads E (textarea_rename_map w) of
             Inl e \<Rightarrow> say (U (report_json_error RenameColumns e))
                      \<circ> say (U (UiSection RenameColumns))
           | Inr rename_map \<Rightarrow>
               attempt RenameColumns (report_json_error RenameColumns)
                 (rename_columns L rename_map))
      \<circ> run_if (cb_remove_duplicates w)
          (attempt RemoveDuplicateRows (report_error RemoveDuplicateRows)
             (remove_duplicate_rows L (column_list (strip (text_duplicates_subset w)))
                (dropdown_duplicates_keep w)))
      \<circ> run_if (cb_convert_types w)
          (case json_loads E (textarea_column_types w) of
             Inl e \<Rightarrow> say (U (report_json_error ConvertDataTypes e))
                      \<circ> say (U (UiSection ConvertDataTypes))
           | Inr column_types \<Rightarrow>
               attempt ConvertDataTypes (report_json_error ConvertDataTypes)
                 (convert_data_types L column_types (dropdown_convert_errors w)))
      \<circ> run_if (cb_handle_missing w)
          (attempt HandleMissingValues (report_error HandleMissingValues)
             (handle_missing_values L (dropdown_missing_strategy w)
                (column_list (strip (text_missing_subset_cols w)))
                (if dropdown_missing_strategy w = ''fill_constant''
                 then Some (parse_fill_value E (strip (text_missing_fill_value w))) else None)
                (if dropdown_missing_strategy w = ''interpolate''
                 then dropdown_interpolate_method w else ''linear'')))
      \<circ> run_if (cb_set_datetime_index w)
          (attempt SetDatetimeIndex (report_error SetDatetimeIndex)
             (set_datetime_index L (strip (text_time_col w)) (dropdown_time_errors w)
                (cb_infer_datetime_format w)))
      \<circ> fresh_processor L
      \<circ> say (U UiStart)) s)"
  unfolding on_process_button_clicked_def comp_def
  apply (subst sq_say)
  apply (subst sq_run [OF fresh_processor_run])
  apply (subst sq_run [OF datetime_section_run])
  apply (subst sq_run [OF missing_section_run])
  apply (subst sq_run [OF convert_section_run])
  apply (subst sq_run [OF duplicates_section_run])
  apply (subst sq_run [OF rename_section_run])
  apply (subst sq_run [OF select_section_run])
  apply (subst sq_run [OF retrieved_run])
  apply (subst sq_run [OF save_section_run])
  apply (simp only: print_say comp_def)
  done

lemmas sample_defs = tables_def t_getitem_def t_getitems_def t_setitem_def t_setitems_def
  t_fillna_method_def t_fillna_def t_ser_fillna_def t_take_rows_def t_row_def t_dropna_def
  t_dropna_cols_def t_drop_duplicates_def t_mean_def t_astype_def t_rename_def t_nrows_def
  t_unsupported_def sample_def and_then_def

lemmas step_defs = run_if_def attempt_def say_def fresh_processor_def retrieved_def exported_def
  report_error_def report_json_error_def table_def

lemmas method_defs = set_datetime_index_def handle_missing_values_def apply_strategy_def
  missing_after_def fill_all_or_subset_def update_subset_def fill_stat_def check_columns_def
  valid_strategies_def convert_data_types_def convert_one_def convert_column_def
  remove_duplicate_rows_def rename_columns_def select_columns_def get_processed_df_def
  save_dataframe_def ensure_drive_mounted_def valid_formats_def filename_of_def
  os_path_join_def on_fs_def column_list_def parse_fill_value_def


section \<open>The order of the operations of a click\<close>

text \<open>
  Claim C1, as the code has it. A click of the process button returns normally, and the
  state it leaves is the one that results from applying the selected operations to the
  table of a new processor on a copy of the raw table, each to the state the one before
  left, in the fixed order datetime indexing, missing values, type conversion,
  de-duplication, renaming, column selection; then \<open>processed_df\<close> is a new object with the
  value of the processor's table, and \<open>save_dataframe\<close> exports that object. Datetime
  indexing, missing-value handling and de-duplication are applied exactly when their
  checkbox is checked; type conversion and renaming when their checkbox is checked and
  their JSON text parses; column selection when its checkbox is checked and its text
  field, stripped, is not empty. \<open>calls\<close> lists the methods entered, in order.
\<close>

theorem click_runs_operations_in_fixed_order:
  "on_process_button_clicked L E w s =
    (Inr (),
     (say (U UiDone)
      \<circ> exported L E w
      \<circ> retrieved L
      \<circ> run_if (cb_select_columns w)
          (if strip (text_columns_to_keep w) \<noteq> []
           then attempt SelectColumns (report_error SelectColumns)
                  (select_columns L (map strip (split CHR '','' (strip (text_columns_to_keep w)))))
           else say (U UiSelectSkipped) \<circ> say (U (UiSection SelectColumns)))
      \<circ> run_if (cb_rename_columns w)
          (case json_loads E (textarea_rename_map w) of
             Inl e \<Rightarrow> say (U (report_json_error RenameColumns e))
                      \<circ> say (U (UiSection RenameColumns))
           | Inr rename_map \<Rightarrow>
               attempt RenameColumns (report_json_error RenameColumns)
                 (rename_columns L rename_map))
      \<circ> run_if (cb_remove_duplicates w)
          (attempt RemoveDuplicateRows (report_error RemoveDuplicateRows)
             (remove_duplicate_rows L (column_list (strip (text_duplicates_subset w)))
                (dropdown_duplicates_keep w)))
      \<circ> run_if (cb_convert_types w)
          (case json_loads E (textarea_column_types w) of
             Inl e \<Rightarrow> say (U (report_json_error ConvertDataTypes e))
                      \<circ> say (U (UiSection ConvertDataTypes))
           | Inr column_types \<Rightarrow>
               attempt ConvertDataTypes (report_json_error ConvertDataTypes)
                 (convert_data_types L column_types (dropdown_convert_errors w)))
      \<circ> run_if (cb_handle_missing w)
          (attempt HandleMissingValues (report_error HandleMissingValues)
             (handle_missing_values L (dropdown_missing_strategy w)
                (column_list (strip (text_missing_subset_cols w)))
                (if dropdown_missing_strategy w = ''fill_constant''
                 then Some (parse_fill_value E (strip (text_missing_fill_value w))) else None)
                (if dropdown_missing_strategy w = ''interpolate''
                 then dropdown_interpolate_method w else ''linear'')))
      \<circ> run_if (cb_set_datetime_index w)
          (attempt SetDatetimeIndex (report_error SetDatetimeIndex)
             (set_datetime_index L (strip (text_time_col w)) (dropdown_time_errors w)
                (cb_infer_datetime_format w)))
      \<circ> fresh_processor L
      \<circ> say (U UiStart)) s)
   \<and> calls (snd (on_process_button_clicked L E w s)) =
     calls s @ [Init]
     @ (if cb_set_datetime_index w then [SetDatetimeIndex] else [])
     @ (if cb_handle_missing w then [HandleMissingValues] else [])
     @ (if cb_convert_types w \<and> \<not> isl (json_loads E (textarea_column_types w))
        then [ConvertDataTypes] else [])
     @ (if cb_remove_duplicates w then [RemoveDuplicateRows] else [])
     @ (if cb_rename_columns w \<and> \<not> isl (json_loads E (textarea_rename_map w))
        then [RenameColumns] else [])
     @ (if cb_select_columns w \<and> strip (text_columns_to_keep w) \<noteq> []
        then [SelectColumns] else [])
     @ [GetProcessedDf, SaveDataframe]"
  by (rule conjI [OF click_run click_calls])

text \<open>
  On the sample: every checkbox is checked, the index column is a, the columns to keep
  are b. The table exported is the processed one, with column b and without the repeated
  row, not the raw one.
\<close>

theorem click_runs_operations_in_fixed_order_witness:
  "fst (on_process_button_clicked tables notebook all_checked start) = Inr ()
   \<and> processed_df (snd (on_process_button_clicked tables notebook all_checked start)) = Some 7
   \<and> heap (snd (on_process_button_clicked tables notebook all_checked start)) ! 7
       = [(''b'', [Some 2, Some 5])]
   \<and> heap (snd (on_process_button_clicked tables notebook all_checked start)) ! 0 = sample
   \<and> files (fs (snd (on_process_button_clicked tables notebook all_checked start)))
       = [(''/content/drive/MyDrive/processed_data/processed_data_20250101_120000.parquet'',
           ''parquet'', [(''b'', [Some 2, Some 5])])]
   \<and> calls (snd (on_process_button_clicked tables notebook all_checked start)) =
     [Init, SetDatetimeIndex, HandleMissingValues, ConvertDataTypes, RemoveDuplicateRows,
      RenameColumns, SelectColumns, GetProcessedDf, SaveDataframe]"
  using click_runs_operations_in_fixed_order [of tables notebook all_checked start]
  by (simp add: step_defs method_defs run_defs sample_defs form_defs notebook_defs Let_def)

text \<open>
  Claim C1 as stated fails: with the checkbox of the column selection checked and its
  text field left empty (the value the form starts with), \<open>select_columns\<close> is not applied:
  the handler prints that it skips the step.
\<close>

theorem checked_selection_skipped_counterexample:
  "cb_select_columns select_checked
   \<and> SelectColumns \<notin> set (calls (snd (on_process_button_clicked tables notebook select_checked start)))
   \<and> U UiSelectSkipped \<in> set (stdout (snd (on_process_button_clicked tables notebook select_checked start)))"
  by (simp add: click_run click_calls form_defs notebook_defs run_if_def say_def
      retrieved_def exported_def fresh_processor_def
      save_dataframe_def ensure_drive_mounted_def valid_formats_def filename_of_def
      os_path_join_def on_fs_def run_defs Let_def table_def)

section \<open>Showing and hiding the parameter widgets\<close>








section \<open>The try and except blocks of the methods\<close>

lemma preorder_extends [simp]: "preorder (extends f)"
  by (auto simp add: preorder_def extends_def)

lemma frame_extends_log: "frame (extends log_messages)"
  by (simp add: frame_def extends_def)

lemma shape_intro:
  "preserves R b \<Longrightarrow> \<exists>n. sq c (try_except b h) = sq c (try_except n h) \<and> preserves R n"
  by blast

lemma set_datetime_index_shape:
  "frame R \<Longrightarrow>
   \<exists>b. set_datetime_index L time_col errors infer =
         sq (called SetDatetimeIndex)
           (try_except b (\<lambda>e. sq (priv_log (DatetimeIndexError (str_of e))) (raise e)))
       \<and> preserves R b"
  unfolding set_datetime_index_def Let_def
  by (rule shape_intro) (intro preserves_rules; assumption)

lemma handle_missing_values_shape:
  "frame R \<Longrightarrow>
   \<exists>b. handle_missing_values L strategy subset_cols fill_value method =
         sq (called HandleMissingValues)
           (try_except b (\<lambda>e. sq (priv_log (MissingError (str_of e))) (raise e)))
       \<and> preserves R b"
  unfolding handle_missing_values_def Let_def apply_strategy_def missing_after_def
    fill_all_or_subset_def update_subset_def fill_stat_def check_columns_def
  by (rule shape_intro) (intro preserves_rules; assumption)

lemma convert_data_types_shape:
  "frame R \<Longrightarrow>
   \<exists>b. convert_data_types L column_types errors =
         sq (called ConvertDataTypes)
           (try_except b (\<lambda>e. sq (priv_log (ConversionError (str_of e))) (raise e)))
       \<and> preserves R b"
  unfolding convert_data_types_def Let_def convert_one_def convert_column_def
  by (rule shape_intro) (intro preserves_rules; assumption)

lemma remove_duplicate_rows_shape:
  "frame R \<Longrightarrow>
   \<exists>b. remove_duplicate_rows L subset' keep =
         sq (called RemoveDuplicateRows)
           (try_except b (\<lambda>e. sq (priv_log (DuplicatesError (str_of e))) (raise e)))
       \<and> preserves R b"
  unfolding remove_duplicate_rows_def Let_def check_columns_def
  by (rule shape_intro) (intro preserves_rules; assumption)

lemma rename_columns_shape:
  "frame R \<Longrightarrow>
   \<exists>b. rename_columns L rename_map =
         sq (called RenameColumns)
           (try_except b (\<lambda>e. sq (priv_log (RenameError (str_of e))) (raise e)))
       \<and> preserves R b"
  unfolding rename_columns_def Let_def
  by (rule shape_intro) (intro preserves_rules; assumption)

lemma select_columns_shape:
  "frame R \<Longrightarrow>
   \<exists>b. select_columns L columns_to_keep =
         sq (called SelectColumns)
           (try_except b (\<lambda>e. sq (priv_log (SelectError (str_of e))) (raise e)))
       \<and> preserves R b"
  unfolding select_columns_def Let_def
  by (rule shape_intro) (intro preserves_rules; assumption)

text \<open>
  A method that raises has logged the exception last: the except block appends one
  message to what the try block had logged, and raises the exception again.
\<close>

lemma raised_is_logged:
  assumes s: "\<exists>b. p = sq (called c) (try_except b (\<lambda>e. sq (priv_log (mk (str_of e))) (raise e)))
      \<and> preserves (extends log_messages) b"
    and r: "p t = (Inl e, t')"
  shows "\<exists>ms. log_messages t' = log_messages t @ ms @ [mk (str_of e)]"
proof -
  from s obtain b where
    p: "p = sq (called c) (try_except b (\<lambda>e. sq (priv_log (mk (str_of e))) (raise e)))"
    and b: "preserves (extends log_messages) b" by blast
  let ?t = "t\<lparr>calls := calls t @ [c]\<rparr>"
  obtain r0 u where u: "b ?t = (r0, u)" by (cases "b ?t")
  from b have "extends log_messages ?t (snd (b ?t))" by (simp add: preserves_def)
  with u obtain ms where ms: "log_messages u = log_messages t @ ms"
    by (auto simp add: extends_def)
  from r p have t: "try_except b (\<lambda>e. sq (priv_log (mk (str_of e))) (raise e)) ?t = (Inl e, t')"
    by (simp add: sq_called)
  show ?thesis
  proof (cases r0)
    case (Inl e0)
    with t u have "e = e0 \<and> log_messages t' = log_messages u @ [mk (str_of e0)]"
      by (auto simp add: try_except_def sq_def bnd_def priv_log_def print_def
          modify_def raise_def)
    with ms show ?thesis by simp
  next
    case (Inr x)
    with t u show ?thesis by (simp add: try_except_def)
  qed
qed

lemma set_datetime_index_raised:
  "set_datetime_index L time_col errors infer t = (Inl e, t') \<Longrightarrow>
   \<exists>ms. log_messages t' = log_messages t @ ms @ [DatetimeIndexError (str_of e)]"
  by (rule raised_is_logged [OF set_datetime_index_shape [OF frame_extends_log]])

lemma handle_missing_values_raised:
  "handle_missing_values L strategy subset_cols fill_value method t = (Inl e, t') \<Longrightarrow>
   \<exists>ms. log_messages t' = log_messages t @ ms @ [MissingError (str_of e)]"
  by (rule raised_is_logged [OF handle_missing_values_shape [OF frame_extends_log]])

lemma convert_data_types_raised:
  "convert_data_types L column_types errors t = (Inl e, t') \<Longrightarrow>
   \<exists>ms. log_messages t' = log_messages t @ ms @ [ConversionError (str_of e)]"
  by (rule raised_is_logged [OF convert_data_types_shape [OF frame_extends_log]])

lemma remove_duplicate_rows_raised:
  "remove_duplicate_rows L subset' keep t = (Inl e, t') \<Longrightarrow>
   \<exists>ms. log_messages t' = log_messages t @ ms @ [DuplicatesError (str_of e)]"
  by (rule raised_is_logged [OF remove_duplicate_rows_shape [OF frame_extends_log]])

lemma rename_columns_raised:
  "rename_columns L rename_map t = (Inl e, t') \<Longrightarrow>
   \<exists>ms. log_messages t' = log_messages t @ ms @ [RenameError (str_of e)]"
  by (rule raised_is_logged [OF rename_columns_shape [OF frame_extends_log]])

lemma select_columns_raised:
  "select_columns L columns_to_keep t = (Inl e, t') \<Longrightarrow>
   \<exists>ms. log_messages t' = log_messages t @ ms @ [SelectError (str_of e)]"
  by (rule raised_is_logged [OF select_columns_shape [OF frame_extends_log]])
section \<open>Failures do not stop a click\<close>

lemma click_sections:
  "snd (on_process_button_clicked L E w s) =
     (say (U UiDone)
      \<circ> (\<lambda>s. snd (save_section L E w s))
      \<circ> retrieved L
      \<circ> (\<lambda>s. snd (select_section L w s))
      \<circ> (\<lambda>s. snd (rename_section L E w s))
      \<circ> (\<lambda>s. snd (duplicates_section L w s))
      \<circ> (\<lambda>s. snd (convert_section L E w s))
      \<circ> (\<lambda>s. snd (missing_section L E w s))
      \<circ> (\<lambda>s. snd (datetime_section L w s))
      \<circ> fresh_processor L
      \<circ> say (U UiStart)) s"
  by (simp add: click_run datetime_section_run missing_section_run convert_section_run
      duplicates_section_run rename_section_run select_section_run save_section_run)

lemma log_messages_say [simp]: "log_messages (say x s) = log_messages s"
  by (simp add: say_def)

lemma click_calls_distinct:
  "distinct (drop (length (calls s)) (calls (snd (on_process_button_clicked L E w s))))"
  by (auto simp add: click_calls)

text \<open>
  Claim C2. A click returns normally, and every section runs, on the state the section
  before it left. When the operation of a section raises, the section still returns
  normally: the state it leaves is the one the operation left, with the exception printed,
  and the operation has logged the exception as its last message; the operation has run
  once. A JSON text that does not parse is printed and leaves the rest of the state as it
  was. \<open>save_dataframe\<close> never raises. No method is entered twice in a click.
\<close>

theorem click_isolates_failures:
  fixes s :: "('df, 'f, 'fs, 'z) ustate_scheme"
  shows
  "fst (on_process_button_clicked L E w s) = Inr ()
   \<and> snd (on_process_button_clicked L E w s) =
       (say (U UiDone)
        \<circ> (\<lambda>s. snd (save_section L E w s))
        \<circ> retrieved L
        \<circ> (\<lambda>s. snd (select_section L w s))
        \<circ> (\<lambda>s. snd (rename_section L E w s))
        \<circ> (\<lambda>s. snd (duplicates_section L w s))
        \<circ> (\<lambda>s. snd (convert_section L E w s))
        \<circ> (\<lambda>s. snd (missing_section L E w s))
        \<circ> (\<lambda>s. snd (datetime_section L w s))
        \<circ> fresh_processor L
        \<circ> say (U UiStart)) s
   \<and> (\<forall>(t :: ('df, 'f, 'fs, 'z) ustate_scheme) e t'.
         cb_set_datetime_index w
         \<and> set_datetime_index L (strip (text_time_col w)) (dropdown_time_errors w)
              (cb_infer_datetime_format w) (say (U (UiSection SetDatetimeIndex)) t) = (Inl e, t')
         \<longrightarrow> datetime_section L w t = (Inr (), say (U (UiError SetDatetimeIndex (str_of e))) t')
           \<and> (\<exists>ms. log_messages t' = log_messages t @ ms @ [DatetimeIndexError (str_of e)]))
   \<and> (\<forall>(t :: ('df, 'f, 'fs, 'z) ustate_scheme) e t'.
         cb_handle_missing w
         \<and> handle_missing_values L (dropdown_missing_strategy w)
              (column_list (strip (text_missing_subset_cols w)))
              (if dropdown_missing_strategy w = ''fill_constant''
               then Some (parse_fill_value E (strip (text_missing_fill_value w))) else None)
              (if dropdown_missing_strategy w = ''interpolate''
               then dropdown_interpolate_method w else ''linear'')
              (say (U (UiSection HandleMissingValues)) t) = (Inl e, t')
         \<longrightarrow> missing_section L E w t = (Inr (), say (U (UiError HandleMissingValues (str_of e))) t')
           \<and> (\<exists>ms. log_messages t' = log_messages t @ ms @ [MissingError (str_of e)]))
   \<and> (\<forall>(t :: ('df, 'f, 'fs, 'z) ustate_scheme) e. cb_convert_types w \<and> json_loads E (textarea_column_types w) = Inl e
         \<longrightarrow> convert_section L E w t =
             (Inr (), t\<lparr>stdout := stdout t @ [U (UiSection ConvertDataTypes),
                                               U (report_json_error ConvertDataTypes e)]\<rparr>))
   \<and> (\<forall>(t :: ('df, 'f, 'fs, 'z) ustate_scheme) column_types e t'.
         cb_convert_types w \<and> json_loads E (textarea_column_types w) = Inr column_types
         \<and> convert_data_types L column_types (dropdown_convert_errors w)
              (say (U (UiSection ConvertDataTypes)) t) = (Inl e, t')
         \<longrightarrow> convert_section L E w t = (Inr (), say (U (report_json_error ConvertDataTypes e)) t')
           \<and> (\<exists>ms. log_messages t' = log_messages t @ ms @ [ConversionError (str_of e)]))
   \<and> (\<forall>(t :: ('df, 'f, 'fs, 'z) ustate_scheme) e t'.
         cb_remove_duplicates w
         \<and> remove_duplicate_rows L (column_list (strip (text_duplicates_subset w)))
              (dropdown_duplicates_keep w) (say (U (UiSection RemoveDuplicateRows)) t) = (Inl e, t')
         \<longrightarrow> duplicates_section L w t = (Inr (), say (U (UiError RemoveDuplicateRows (str_of e))) t')
           \<and> (\<exists>ms. log_messages t' = log_messages t @ ms @ [DuplicatesError (str_of e)]))
   \<and> (\<forall>(t :: ('df, 'f, 'fs, 'z) ustate_scheme) e. cb_rename_columns w \<and> json_loads E (textarea_rename_map w) = Inl e
         \<longrightarrow> rename_section L E w t =
             (Inr (), t\<lparr>stdout := stdout t @ [U (UiSection RenameColumns),
                                               U (report_json_error RenameColumns e)]\<rparr>))
   \<and> (\<forall>(t :: ('df, 'f, 'fs, 'z) ustate_scheme) rename_map e t'.
         cb_rename_columns w \<and> json_loads E (textarea_rename_map w) = Inr rename_map
         \<and> rename_columns L rename_map (say (U (UiSection RenameColumns)) t) = (Inl e, t')
         \<longrightarrow> rename_section L E w t = (Inr (), say (U (report_json_error RenameColumns e)) t')
           \<and> (\<exists>ms. log_messages t' = log_messages t @ ms @ [RenameError (str_of e)]))
   \<and> (\<forall>(t :: ('df, 'f, 'fs, 'z) ustate_scheme) e t'.
         cb_select_columns w \<and> strip (text_columns_to_keep w) \<noteq> []
         \<and> select_columns L (map strip (split CHR '','' (strip (text_columns_to_keep w))))
              (say (U (UiSection SelectColumns)) t) = (Inl e, t')
         \<longrightarrow> select_section L w t = (Inr (), say (U (UiError SelectColumns (str_of e))) t')
           \<and> (\<exists>ms. log_messages t' = log_messages t @ ms @ [SelectError (str_of e)]))
   \<and> (\<forall>t :: ('df, 'f, 'fs, 'z) ustate_scheme. fst (save_section L E w t) = Inr ())
   \<and> distinct (drop (length (calls s)) (calls (snd (on_process_button_clicked L E w s))))"
proof (intro conjI allI impI; (elim conjE)?)
  show "fst (on_process_button_clicked L E w s) = Inr ()" by (rule click_returns)
  show "snd (on_process_button_clicked L E w s) =
       (say (U UiDone)
        \<circ> (\<lambda>s. snd (save_section L E w s))
        \<circ> retrieved L
        \<circ> (\<lambda>s. snd (select_section L w s))
        \<circ> (\<lambda>s. snd (rename_section L E w s))
        \<circ> (\<lambda>s. snd (duplicates_section L w s))
        \<circ> (\<lambda>s. snd (convert_section L E w s))
        \<circ> (\<lambda>s. snd (missing_section L E w s))
        \<circ> (\<lambda>s. snd (datetime_section L w s))
        \<circ> fresh_processor L
        \<circ> say (U UiStart)) s" by (rule click_sections)
  show "distinct (drop (length (calls s)) (calls (snd (on_process_button_clicked L E w s))))"
    by (rule click_calls_distinct)
  show "fst (save_section L E w t) = Inr ()" for t :: "('df, 'f, 'fs, 'z) ustate_scheme"
    by (rule save_section_returns)
next
  fix t :: "('df, 'f, 'fs, 'z) ustate_scheme" and e t'
  assume "cb_set_datetime_index w"
    and r: "set_datetime_index L (strip (text_time_col w)) (dropdown_time_errors w)
              (cb_infer_datetime_format w) (say (U (UiSection SetDatetimeIndex)) t) = (Inl e, t')"
  then show "datetime_section L w t = (Inr (), say (U (UiError SetDatetimeIndex (str_of e))) t')"
    by (simp add: datetime_section_run run_if_def attempt_def report_error_def)
  from set_datetime_index_raised [OF r]
  show "\<exists>ms. log_messages t' = log_messages t @ ms @ [DatetimeIndexError (str_of e)]" by simp
next
  fix t :: "('df, 'f, 'fs, 'z) ustate_scheme" and e t'
  assume "cb_handle_missing w"
    and r: "handle_missing_values L (dropdown_missing_strategy w)
              (column_list (strip (text_missing_subset_cols w)))
              (if dropdown_missing_strategy w = ''fill_constant''
               then Some (parse_fill_value E (strip (text_missing_fill_value w))) else None)
              (if dropdown_missing_strategy w = ''interpolate''
               then dropdown_interpolate_method w else ''linear'')
              (say (U (UiSection HandleMissingValues)) t) = (Inl e, t')"
  then show "missing_section L E w t = (Inr (), say (U (UiError HandleMissingValues (str_of e))) t')"
    by (simp add: missing_section_run run_if_def attempt_def report_error_def)
  from handle_missing_values_raised [OF r]
  show "\<exists>ms. log_messages t' = log_messages t @ ms @ [MissingError (str_of e)]" by simp
next
  fix t :: "('df, 'f, 'fs, 'z) ustate_scheme" and e
  assume "cb_convert_types w" "json_loads E (textarea_column_types w) = Inl e"
  then show "convert_section L E w t =
             (Inr (), t\<lparr>stdout := stdout t @ [U (UiSection ConvertDataTypes),
                                               U (report_json_error ConvertDataTypes e)]\<rparr>)"
    by (simp add: convert_section_run run_if_def say_def)
next
  fix t :: "('df, 'f, 'fs, 'z) ustate_scheme" and column_types e t'
  assume "cb_convert_types w" "json_loads E (textarea_column_types w) = Inr column_types"
    and r: "convert_data_types L column_types (dropdown_convert_errors w)
              (say (U (UiSection ConvertDataTypes)) t) = (Inl e, t')"
  then show "convert_section L E w t = (Inr (), say (U (report_json_error ConvertDataTypes e)) t')"
    by (simp add: convert_section_run run_if_def attempt_def)
  from convert_data_types_raised [OF r]
  show "\<exists>ms. log_messages t' = log_messages t @ ms @ [ConversionError (str_of e)]" by simp
next
  fix t :: "('df, 'f, 'fs, 'z) ustate_scheme" and e t'
  assume "cb_remove_duplicates w"
    and r: "remove_duplicate_rows L (column_list (strip (text_duplicates_subset w)))
              (dropdown_duplicates_keep w) (say (U (UiSection RemoveDuplicateRows)) t) = (Inl e, t')"
  then show "duplicates_section L w t = (Inr (), say (U (UiError RemoveDuplicateRows (str_of e))) t')"
    by (simp add: duplicates_section_run run_if_def attempt_def report_error_def)
  from remove_duplicate_rows_raised [OF r]
  show "\<exists>ms. log_messages t' = log_messages t @ ms @ [DuplicatesError (str_of e)]" by simp
next
  fix t :: "('df, 'f, 'fs, 'z) ustate_scheme" and e
  assume "cb_rename_columns w" "json_loads E (textarea_rename_map w) = Inl e"
  then show "rename_section L E w t =
             (Inr (), t\<lparr>stdout := stdout t @ [U (UiSection RenameColumns),
                                               U (report_json_error RenameColumns e)]\<rparr>)"
    by (simp add: rename_section_run run_if_def say_def)
next
  fix t :: "('df, 'f, 'fs, 'z) ustate_scheme" and rename_map e t'
  assume "cb_rename_columns w" "json_loads E (textarea_rename_map w) = Inr rename_map"
    and r: "rename_columns L rename_map (say (U (UiSection RenameColumns)) t) = (Inl e, t')"
  then show "rename_section L E w t = (Inr (), say (U (report_json_error RenameColumns e)) t')"
    by (simp add: rename_section_run run_if_def attempt_def)
  from rename_columns_raised [OF r]
  show "\<exists>ms. log_messages t' = log_messages t @ ms @ [RenameError (str_of e)]" by simp
next
  fix t :: "('df, 'f, 'fs, 'z) ustate_scheme" and e t'
  assume "cb_select_columns w" "strip (text_columns_to_keep w) \<noteq> []"
    and r: "select_columns L (map strip (split CHR '','' (strip (text_columns_to_keep w))))
              (say (U (UiSection SelectColumns)) t) = (Inl e, t')"
  then show "select_section L w t = (Inr (), say (U (UiError SelectColumns (str_of e))) t')"
    by (simp add: select_section_run run_if_def attempt_def report_error_def)
  from select_columns_raised [OF r]
  show "\<exists>ms. log_messages t' = log_messages t @ ms @ [SelectError (str_of e)]" by simp
qed

text \<open>
  On the sample: the datetime indexing raises, for the table has no column z; the click
  goes on, removes the repeated row and keeps column b, and exports that table.
\<close>

theorem click_isolates_failures_witness:
  "cb_set_datetime_index failing
   \<and> fst (set_datetime_index tables (strip (text_time_col failing)) (dropdown_time_errors failing)
            (cb_infer_datetime_format failing)
            (say (U (UiSection SetDatetimeIndex)) (fresh_processor tables (say (U UiStart) start))))
       = Inl (Exn KeyError (ColumnNotFound ''z''))
   \<and> fst (on_process_button_clicked tables notebook failing start) = Inr ()
   \<and> log_messages (snd (on_process_button_clicked tables notebook failing start))
       = [Created (3, 2), DatetimeIndexError (ColumnNotFound ''z''),
          DuplicatesRemoved 1 None KeepFirst, ColumnsKept [''b''], ColumnsRemoved {''a''},
          ProcessedReturned (2, 1)]
   \<and> processed_df (snd (on_process_button_clicked tables notebook failing start)) = Some 5
   \<and> heap (snd (on_process_button_clicked tables notebook failing start)) ! 5
       = [(''b'', [Some 2, Some 5])]
   \<and> files (fs (snd (on_process_button_clicked tables notebook failing start)))
       = [(''/content/drive/MyDrive/processed_data/processed_data_20250101_120000.parquet'',
           ''parquet'', [(''b'', [Some 2, Some 5])])]"
proof -
  note T = click_isolates_failures [of tables notebook failing start]
  have r: "fst (on_process_button_clicked tables notebook failing start) = Inr ()"
    using T by blast
  have c: "snd (on_process_button_clicked tables notebook failing start) =
       (say (U UiDone)
        \<circ> (\<lambda>s. snd (save_section tables notebook failing s))
        \<circ> retrieved tables
        \<circ> (\<lambda>s. snd (select_section tables failing s))
        \<circ> (\<lambda>s. snd (rename_section tables notebook failing s))
        \<circ> (\<lambda>s. snd (duplicates_section tables failing s))
        \<circ> (\<lambda>s. snd (convert_section tables notebook failing s))
        \<circ> (\<lambda>s. snd (missing_section tables notebook failing s))
        \<circ> (\<lambda>s. snd (datetime_section tables failing s))
        \<circ> fresh_processor tables
        \<circ> say (U UiStart)) start"
    using T by blast
  have s: "snd (on_process_button_clicked tables notebook failing start) =
      \<lparr>heap = [sample, sample, sample, [(''a'', [Some 1, None]), (''b'', [Some 2, Some 5])],
               [(''b'', [Some 2, Some 5])], [(''b'', [Some 2, Some 5])]],
       df = 4,
       log_messages = [Created (3, 2), DatetimeIndexError (ColumnNotFound ''z''),
          DuplicatesRemoved 1 None KeepFirst, ColumnsKept [''b''], ColumnsRemoved {''a''},
          ProcessedReturned (2, 1)],
       stdout = [U UiStart, P (Created (3, 2)), U (UiSection SetDatetimeIndex),
          P (DatetimeIndexError (ColumnNotFound ''z'')),
          U (UiError SetDatetimeIndex (ColumnNotFound ''z'')),
          U (UiSection RemoveDuplicateRows), P (DuplicatesRemoved 1 None KeepFirst),
          U (UiSection SelectColumns), P (ColumnsKept [''b'']), P (ColumnsRemoved {''a''}),
          P (ProcessedReturned (2, 1)), U (UiSection SaveDataframe),
          D (DirCreated ''/content/drive/MyDrive/processed_data/''),
          D (SavedTo ''/content/drive/MyDrive/processed_data/processed_data_20250101_120000.parquet''),
          U (UiSaved ''/content/drive/MyDrive/processed_data/processed_data_20250101_120000.parquet''),
          U UiDone],
       calls = [Init, SetDatetimeIndex, RemoveDuplicateRows, SelectColumns, GetProcessedDf,
          SaveDataframe],
       fs = \<lparr>dirs = [''/content/drive'', ''/content/drive/MyDrive/processed_data/''],
              files = [(''/content/drive/MyDrive/processed_data/processed_data_20250101_120000.parquet'',
                        ''parquet'', [(''b'', [Some 2, Some 5])])],
              colab = True\<rparr>,
       base_save_path = ''/content/drive/MyDrive/processed_data/'',
       raw_df = 0, processed_df = Some 5\<rparr>"
    unfolding c
    apply (simp add: datetime_section_def missing_section_def convert_section_def
        duplicates_section_def rename_section_def select_section_def save_section_def
        failing_def step_defs method_defs run_defs sample_defs form_defs notebook_defs Let_def
        eval_nat_numeral)
    apply auto
    done
  have e: "fst (set_datetime_index tables (strip (text_time_col failing)) (dropdown_time_errors failing)
            (cb_infer_datetime_format failing)
            (say (U (UiSection SetDatetimeIndex)) (fresh_processor tables (say (U UiStart) start))))
       = Inl (Exn KeyError (ColumnNotFound ''z''))"
    by (simp add: failing_def step_defs method_defs run_defs sample_defs form_defs notebook_defs
        Let_def)
  have cb: "cb_set_datetime_index failing"
    by (simp add: failing_def create_widgets_def)
  show ?thesis
    using r e cb by (simp add: s)
qed

section \<open>Every operation logs\<close>

lemma extends_length:
  "preserves (extends log_messages) m \<Longrightarrow> length (log_messages s) \<le> length (log_messages (snd (m s)))"
  by (auto simp add: preserves_def extends_def dest!: spec [of _ s])

lemma logs_raise: "logs (raise e)"
  by (simp add: logs_def raise_def)

lemma logs_priv_log: "logs (priv_log m)"
  by (simp add: logs_def priv_log_def sq_def bnd_def print_def modify_def)

lemma logs_bnd:
  assumes "preserves (extends log_messages) m" "\<And>x. logs (f x)"
  shows "logs (bnd m f)"
proof -
  have "case bnd m f s of (Inl e, s') \<Rightarrow> True
        | (Inr x, s') \<Rightarrow> length (log_messages s) < length (log_messages s')" for s
  proof (cases "m s")
    case (Pair r s1)
    show ?thesis
    proof (cases r)
      case (Inl e)
      with Pair show ?thesis by (simp add: bnd_def)
    next
      case (Inr x)
      from extends_length [OF assms(1), of s] Pair
      have "length (log_messages s) \<le> length (log_messages s1)" by simp
      moreover from assms(2) [of x]
      have "case f x s1 of (Inl e, s') \<Rightarrow> True
            | (Inr y, s') \<Rightarrow> length (log_messages s1) < length (log_messages s')"
        by (simp add: logs_def)
      ultimately show ?thesis using Pair Inr
        by (auto simp add: bnd_def split: prod.splits sum.splits)
    qed
  qed
  then show ?thesis by (simp add: logs_def)
qed

lemma logs_sq: "preserves (extends log_messages) m \<Longrightarrow> logs n \<Longrightarrow> logs (sq m n)"
  by (simp add: sq_def logs_bnd)

lemma logs_sq_first:
  assumes "preserves (extends log_messages) n"
  shows "logs (sq (priv_log m) n)"
proof -
  have "case sq (priv_log m) n s of (Inl e, s') \<Rightarrow> True
        | (Inr x, s') \<Rightarrow> length (log_messages s) < length (log_messages s')" for s
  proof -
    let ?s1 = "s\<lparr>stdout := stdout s @ [P m], log_messages := log_messages s @ [m]\<rparr>"
    have 1: "sq (priv_log m) n s = n ?s1"
      by (simp add: sq_def bnd_def priv_log_def print_def modify_def)
    from extends_length [OF assms, of ?s1]
    have "length (log_messages s) < length (log_messages (snd (n ?s1)))" by simp
    then show ?thesis by (cases "n ?s1") (auto simp add: 1 split: sum.splits)
  qed
  then show ?thesis by (simp add: logs_def)
qed

lemma logs_if: "(c \<Longrightarrow> logs a) \<Longrightarrow> (\<not> c \<Longrightarrow> logs b) \<Longrightarrow> logs (if c then a else b)"
  by simp

lemma logs_case_option:
  "logs a \<Longrightarrow> (\<And>x. logs (b x)) \<Longrightarrow> logs (case v of None \<Rightarrow> a | Some x \<Rightarrow> b x)"
  by (cases v) simp_all

lemma logs_case_json:
  "(\<And>x. logs (a x)) \<Longrightarrow> logs b \<Longrightarrow> logs (case v of JsonDict x \<Rightarrow> a x | JsonOther \<Rightarrow> b)"
  by (cases v) simp_all

lemma logs_case_prod: "(\<And>x y. logs (a x y)) \<Longrightarrow> logs (case v of (x, y) \<Rightarrow> a x y)"
  by (cases v) simp

lemma logs_case_pyobj:
  "(\<And>x. logs (a x)) \<Longrightarrow> logs b \<Longrightarrow>
   logs (case v of DataFrameRef x \<Rightarrow> a x | NotDataFrame \<Rightarrow> b)"
  by (cases v) simp_all

lemma logs_try_except:
  assumes "preserves (extends log_messages) m" "logs m" "\<And>e. logs (h e)"
  shows "logs (try_except m h)"
proof -
  have "case try_except m h s of (Inl e, s') \<Rightarrow> True
        | (Inr x, s') \<Rightarrow> length (log_messages s) < length (log_messages s')" for s
  proof (cases "m s")
    case (Pair r s1)
    show ?thesis
    proof (cases r)
      case (Inr x)
      with assms(2) Pair show ?thesis
        by (auto simp add: logs_def try_except_def dest!: spec [of _ s])
    next
      case (Inl e)
      from extends_length [OF assms(1), of s] Pair
      have "length (log_messages s) \<le> length (log_messages s1)" by simp
      moreover from assms(3) [of e]
      have "case h e s1 of (Inl e, s') \<Rightarrow> True
            | (Inr y, s') \<Rightarrow> length (log_messages s1) < length (log_messages s')"
        by (simp add: logs_def)
      ultimately show ?thesis using Pair Inl
        by (auto simp add: try_except_def split: prod.splits sum.splits)
    qed
  qed
  then show ?thesis by (simp add: logs_def)
qed

lemma logs_for_each:
  assumes "xs \<noteq> []" "\<And>x. logs (body x)" "\<And>x. preserves (extends log_messages) (body x)"
  shows "logs (for_each xs body)"
proof (cases xs)
  case Nil
  with assms(1) show ?thesis by simp
next
  case (Cons x ys)
  have "logs (sq (body x) (for_each ys body))"
  proof -
    have p: "preserves (extends log_messages) (for_each ys body)"
      by (intro preserves_for_each assms(3)) simp
    have "logs (bnd (body x) (\<lambda>_. for_each ys body))"
    proof -
      have "case bnd (body x) (\<lambda>_. for_each ys body) s of (Inl e, s') \<Rightarrow> True
            | (Inr y, s') \<Rightarrow> length (log_messages s) < length (log_messages s')" for s
      proof (cases "body x s")
        case (Pair r s1)
        show ?thesis
        proof (cases r)
          case (Inl e)
          with Pair show ?thesis by (simp add: bnd_def)
        next
          case (Inr u)
          from assms(2) [of x] Pair Inr
          have "length (log_messages s) < length (log_messages s1)"
            by (auto simp add: logs_def dest!: spec [of _ s])
          moreover from extends_length [OF p, of s1]
          have "length (log_messages s1) \<le> length (log_messages (snd (for_each ys body s1)))" .
          ultimately show ?thesis using Pair Inr
            by (auto simp add: bnd_def split: prod.splits sum.splits)
        qed
      qed
      then show ?thesis by (simp add: logs_def)
    qed
    then show ?thesis by (simp add: sq_def)
  qed
  with Cons show ?thesis by simp
qed

lemmas logs_rules =
  logs_raise logs_priv_log logs_sq_first logs_bnd logs_sq logs_if logs_case_option
  logs_case_json logs_case_prod logs_case_pyobj logs_try_except

lemmas ext_rules = preserves_rules frame_extends_log

lemma preorder_appends [simp]: "preorder (appends ok)"
  unfolding preorder_def appends_def
proof (intro conjI allI impI)
  fix s :: "('a, 'b, 'c) pstate_scheme"
  show "\<exists>ms. log_messages s = log_messages s @ ms \<and> list_all ok ms" by simp
next
  fix a b c :: "('a, 'b, 'c) pstate_scheme"
  assume "\<exists>ms. log_messages b = log_messages a @ ms \<and> list_all ok ms"
    and "\<exists>ms. log_messages c = log_messages b @ ms \<and> list_all ok ms"
  then obtain ms ns where "log_messages b = log_messages a @ ms" "list_all ok ms"
    "log_messages c = log_messages b @ ns" "list_all ok ns" by blast
  then have "log_messages c = log_messages a @ (ms @ ns) \<and> list_all ok (ms @ ns)" by simp
  then show "\<exists>ms. log_messages c = log_messages a @ ms \<and> list_all ok ms" by blast
qed

lemma appends_print: "preserves (appends ok) (print m)"
  by (simp add: print_def preserves_modify appends_def)

lemma appends_priv_log: "ok m \<Longrightarrow> preserves (appends ok) (priv_log m)"
  by (simp add: priv_log_def print_def sq_def bnd_def modify_def preserves_def appends_def)

lemma appends_read_df: "preserves (appends ok) read_df"
  by (simp add: read_df_def preserves_get)

lemma appends_mutate_df: "preserves (appends ok) (mutate_df v)"
  by (simp add: mutate_df_def preserves_modify appends_def)

lemma appends_assign_df: "preserves (appends ok) (assign_df v)"
  by (simp add: assign_df_def alloc_def bind_df_def bnd_def modify_def preserves_def appends_def)

lemma appends_bind_df: "preserves (appends ok) (bind_df a)"
  by (simp add: bind_df_def preserves_modify appends_def)

lemma appends_mutate_with: "preserves (appends ok) (mutate_with f)"
  unfolding mutate_with_def
  by (intro preserves_bnd appends_read_df preserves_lift appends_mutate_df preorder_appends)

lemma appends_rebind_with: "preserves (appends ok) (rebind_with f)"
  unfolding rebind_with_def
  by (intro preserves_bnd appends_read_df preserves_lift appends_assign_df preorder_appends)

lemmas appends_rules =
  appends_print appends_priv_log appends_read_df appends_mutate_df appends_assign_df
  appends_bind_df appends_mutate_with appends_rebind_with
  preserves_ret preserves_raise preserves_lift preserves_get
  preserves_bnd preserves_sq preserves_try_except preserves_for_each
  preserves_if preserves_case_option preserves_case_json preserves_case_prod
  preserves_case_pyobj preorder_appends

lemma appends_extends:
  "preserves (appends ok) m \<Longrightarrow> preserves (extends log_messages) m"
  by (auto simp add: preserves_def appends_def extends_def)

text \<open>
  The try block of each method logs when it returns, and the except block logs before it
  raises again: a call of the method appends at least one message, and every message it
  appends is one of the method's.
\<close>

lemma logged_once:
  assumes s: "\<exists>b. p = sq (called c) (try_except b (\<lambda>e. sq (priv_log (mk (str_of e))) (raise e)))
      \<and> preserves (appends ok) b \<and> logs b"
    and d: "\<And>r. ok (mk r)"
  shows "\<exists>ms. ms \<noteq> [] \<and> list_all ok ms \<and> log_messages (snd (p t)) = log_messages t @ ms"
proof -
  from s obtain b where
    p: "p = sq (called c) (try_except b (\<lambda>e. sq (priv_log (mk (str_of e))) (raise e)))"
    and b: "preserves (appends ok) b" and l: "logs b" by blast
  let ?t = "t\<lparr>calls := calls t @ [c]\<rparr>"
  obtain r0 u where u: "b ?t = (r0, u)" by (cases "b ?t")
  from b have "appends ok ?t (snd (b ?t))" by (simp add: preserves_def)
  with u obtain ms where ms: "log_messages u = log_messages t @ ms" and dm: "list_all ok ms"
    by (auto simp add: appends_def)
  have pt: "p t = try_except b (\<lambda>e. sq (priv_log (mk (str_of e))) (raise e)) ?t"
    by (simp add: p sq_called)
  show ?thesis
  proof (cases r0)
    case (Inl e0)
    with u have "log_messages (snd (p t)) = log_messages u @ [mk (str_of e0)]"
      by (simp add: pt try_except_def sq_def bnd_def priv_log_def print_def
          modify_def raise_def)
    with ms have "log_messages (snd (p t)) = log_messages t @ (ms @ [mk (str_of e0)])" by simp
    moreover have "list_all ok (ms @ [mk (str_of e0)])" using dm d by simp
    ultimately show ?thesis by blast
  next
    case (Inr x)
    with u have 1: "snd (p t) = u" by (simp add: pt try_except_def)
    from l u Inr have "length (log_messages ?t) < length (log_messages u)"
      by (auto simp add: logs_def dest!: spec [of _ ?t])
    with ms have "ms \<noteq> []" by auto
    with ms dm 1 show ?thesis by auto
  qed
qed

lemma shape_intro_logs:
  "preserves R b \<Longrightarrow> logs b \<Longrightarrow>
   \<exists>n. sq c (try_except b h) = sq c (try_except n h) \<and> preserves R n \<and> logs n"
  by blast

lemma set_datetime_index_logs:
  "\<exists>ms. ms \<noteq> [] \<and> list_all (describes SetDatetimeIndex) ms
      \<and> log_messages (snd (set_datetime_index L time_col errors infer s)) = log_messages s @ ms"
  apply (rule logged_once [where mk = DatetimeIndexError])
  unfolding set_datetime_index_def Let_def
   apply (rule shape_intro_logs)
    apply (intro appends_rules; simp add: describes_def)
   apply (intro logs_rules; (intro ext_rules)?)
  apply (simp add: describes_def)
  done

lemma handle_missing_values_logs:
  "\<exists>ms. ms \<noteq> [] \<and> list_all (describes HandleMissingValues) ms
      \<and> log_messages (snd (handle_missing_values L strategy subset_cols fill_value method s))
          = log_messages s @ ms"
  apply (rule logged_once [where mk = MissingError])
  unfolding handle_missing_values_def Let_def apply_strategy_def missing_after_def
    fill_all_or_subset_def update_subset_def fill_stat_def check_columns_def
   apply (rule shape_intro_logs)
    apply (intro appends_rules; simp add: describes_def)
   apply (intro logs_rules; (intro ext_rules)?)
  apply (simp add: describes_def)
  done

lemma remove_duplicate_rows_logs:
  "\<exists>ms. ms \<noteq> [] \<and> list_all (describes RemoveDuplicateRows) ms
      \<and> log_messages (snd (remove_duplicate_rows L subset' keep s)) = log_messages s @ ms"
  apply (rule logged_once [where mk = DuplicatesError])
  unfolding remove_duplicate_rows_def Let_def check_columns_def
   apply (rule shape_intro_logs)
    apply (intro appends_rules; simp add: describes_def)
   apply (intro logs_rules; (intro ext_rules)?)
  apply (simp add: describes_def)
  done

lemma rename_columns_logs:
  "\<exists>ms. ms \<noteq> [] \<and> list_all (describes RenameColumns) ms
      \<and> log_messages (snd (rename_columns L rename_map s)) = log_messages s @ ms"
  apply (rule logged_once [where mk = RenameError])
  unfolding rename_columns_def Let_def
   apply (rule shape_intro_logs)
    apply (intro appends_rules; simp add: describes_def)
   apply (intro logs_rules; (intro ext_rules)?)
  apply (simp add: describes_def)
  done

lemma select_columns_logs:
  "\<exists>ms. ms \<noteq> [] \<and> list_all (describes SelectColumns) ms
      \<and> log_messages (snd (select_columns L columns_to_keep s)) = log_messages s @ ms"
  apply (rule logged_once [where mk = SelectError])
  unfolding select_columns_def Let_def
   apply (rule shape_intro_logs)
    apply (intro appends_rules; simp add: describes_def)
   apply (intro logs_rules; (intro ext_rules)?)
  apply (simp add: describes_def)
  done

lemma convert_data_types_logs:
  assumes "column_types \<noteq> JsonDict []"
  shows "\<exists>ms. ms \<noteq> [] \<and> list_all (describes ConvertDataTypes) ms
      \<and> log_messages (snd (convert_data_types L column_types errors s)) = log_messages s @ ms"
proof (cases column_types)
  case JsonOther
  show ?thesis
    apply (rule logged_once [where mk = ConversionError])
    unfolding convert_data_types_def JsonOther json.case
     apply (rule shape_intro_logs)
      apply (intro appends_rules)
     apply (intro logs_rules)
    apply (simp add: describes_def)
    done
next
  case (JsonDict items)
  with assms have ne: "items \<noteq> []" by simp
  show ?thesis
    apply (rule logged_once [where mk = ConversionError])
    unfolding convert_data_types_def JsonDict json.case Let_def convert_one_def
      convert_column_def
     apply (rule shape_intro_logs)
      apply (intro appends_rules; simp add: describes_def)
     apply (intro logs_rules logs_for_each [OF ne]; (intro ext_rules)?)
    apply (simp add: describes_def)
    done
qed

lemma convert_data_types_empty:
  "convert_data_types L (JsonDict []) errors s = (Inr (), s\<lparr>calls := calls s @ [ConvertDataTypes]\<rparr>)"
  by (simp add: convert_data_types_def run_defs Let_def)

lemma apply_custom_function_logs:
  assumes "keeps_log func"
  shows "\<exists>ms. ms \<noteq> [] \<and> list_all (describes ApplyCustomFunction) ms
      \<and> log_messages (snd (apply_custom_function L func s)) = log_messages s @ ms"
proof -
  have f: "preserves (appends ok) (func a)" for a and ok :: "'b proc_msg \<Rightarrow> bool"
    using assms by (auto simp add: keeps_log_def preserves_def same_def appends_def)
  have g: "preserves (extends log_messages) (func a)" for a
    using assms by (auto simp add: keeps_log_def preserves_def same_def extends_def)
  have h: "preserves (extends log_messages) (bind_df a)" for a
    by (rule appends_extends [OF appends_bind_df])
  show ?thesis
    apply (rule logged_once [where mk = CustomError])
    unfolding apply_custom_function_def Let_def
     apply (rule shape_intro_logs)
      apply (intro appends_rules f; simp add: describes_def)
     apply (intro logs_rules; (intro ext_rules g h)?)
    apply (simp add: describes_def)
    done
qed

lemma get_processed_df_logs:
  "\<exists>ms. ms \<noteq> [] \<and> list_all (describes GetProcessedDf) ms
      \<and> log_messages (snd (get_processed_df L s)) = log_messages s @ ms"
  by (simp add: get_processed_df_run describes_def)

text \<open>
  Claim C6, as the code has it. The constructor starts the log with one message. Every
  call of an operation, whether it returns or raises, appends at least one message to the
  log, and every message it appends is one of those the source of that operation writes;
  but \<open>convert_data_types\<close> with an empty dict appends nothing. What was in the log stays,
  in its order, and \<open>get_log_messages\<close> returns the whole log. The user-supplied function
  of \<open>apply_custom_function\<close> is taken to leave the log as it is.
\<close>

theorem operations_log:
  fixes s :: "('df, 'f, 'z) pstate_scheme"
  shows
  "get_log_messages (snd (DataFrameProcessor L a s)) = [Created (pd_shape L (heap s ! a))]
   \<and> ((\<forall>errors. op \<noteq> ConvertDataTypesOp (JsonDict []) errors)
        \<and> (\<forall>func. op = ApplyCustomFunctionOp func \<longrightarrow> keeps_log func)
      \<longrightarrow> (\<exists>ms. ms \<noteq> [] \<and> list_all (describes (name op)) ms
             \<and> get_log_messages (perform L op s) = get_log_messages s @ ms))
   \<and> get_log_messages (perform L (ConvertDataTypesOp (JsonDict []) errors) s)
       = get_log_messages s"
proof (intro conjI impI; (elim conjE)?)
  show "get_log_messages (snd (DataFrameProcessor L a s)) = [Created (pd_shape L (heap s ! a))]"
    by (simp add: get_log_messages_def DataFrameProcessor_run)
  show "get_log_messages (perform L (ConvertDataTypesOp (JsonDict []) errors) s)
       = get_log_messages s"
    by (simp add: get_log_messages_def convert_data_types_empty)
next
  assume n: "\<forall>errors. op \<noteq> ConvertDataTypesOp (JsonDict []) errors"
    and k: "\<forall>func. op = ApplyCustomFunctionOp func \<longrightarrow> keeps_log func"
  show "\<exists>ms. ms \<noteq> [] \<and> list_all (describes (name op)) ms
             \<and> get_log_messages (perform L op s) = get_log_messages s @ ms"
  proof (cases op)
    case (SetDatetimeIndexOp time_col errors infer)
    then show ?thesis by (simp add: get_log_messages_def set_datetime_index_logs)
  next
    case (HandleMissingValuesOp strategy subset_cols fill_value interpolation)
    then show ?thesis by (simp add: get_log_messages_def handle_missing_values_logs)
  next
    case (ConvertDataTypesOp column_types errors)
    with n have "column_types \<noteq> JsonDict []" by simp
    from convert_data_types_logs [OF this] ConvertDataTypesOp show ?thesis
      by (simp add: get_log_messages_def)
  next
    case (RemoveDuplicateRowsOp subset' keep)
    then show ?thesis by (simp add: get_log_messages_def remove_duplicate_rows_logs)
  next
    case (RenameColumnsOp rename_map)
    then show ?thesis by (simp add: get_log_messages_def rename_columns_logs)
  next
    case (SelectColumnsOp columns_to_keep)
    then show ?thesis by (simp add: get_log_messages_def select_columns_logs)
  next
    case (ApplyCustomFunctionOp func)
    with k have "keeps_log func" by simp
    from apply_custom_function_logs [OF this] ApplyCustomFunctionOp show ?thesis
      by (simp add: get_log_messages_def)
  next
    case GetProcessedDfOp
    then show ?thesis by (simp add: get_log_messages_def get_processed_df_logs)
  qed
qed

text \<open>
  On the sample: the renaming of column a appends one message; the function that returns
  the table it is given leaves the log as it is, and the call appends one message.
\<close>

theorem operations_log_witness:
  "(\<forall>errors. rename_a \<noteq> ConvertDataTypesOp (JsonDict []) errors)
   \<and> get_log_messages (perform tables rename_a processor) = [Renamed [(''a'', ''x'')]]
   \<and> (\<exists>ms. ms \<noteq> [] \<and> list_all (describes RenameColumns) ms
         \<and> get_log_messages (perform tables rename_a processor)
             = get_log_messages processor @ ms)
   \<and> keeps_log unchanged
   \<and> (\<exists>ms. ms \<noteq> [] \<and> list_all (describes ApplyCustomFunction) ms
         \<and> get_log_messages (perform tables (ApplyCustomFunctionOp unchanged) processor)
             = get_log_messages processor @ ms)"
proof -
  have k: "keeps_log unchanged"
    by (simp add: keeps_log_def unchanged_def preserves_def same_def ret_def)
  have r: "\<forall>errors. rename_a \<noteq> ConvertDataTypesOp (JsonDict []) errors"
    by (simp add: rename_a_def)
  have e: "get_log_messages (perform tables rename_a processor) = [Renamed [(''a'', ''x'')]]"
    by (simp add: get_log_messages_def rename_a_def processor_def rename_columns_def run_defs
        sample_defs Let_def)
  from operations_log [of tables 0 processor rename_a] r
  have 1: "\<exists>ms. ms \<noteq> [] \<and> list_all (describes RenameColumns) ms
         \<and> get_log_messages (perform tables rename_a processor)
             = get_log_messages processor @ ms"
    by (simp add: rename_a_def)
  from operations_log [of tables 0 processor "ApplyCustomFunctionOp unchanged"] k
  have 2: "\<exists>ms. ms \<noteq> [] \<and> list_all (describes ApplyCustomFunction) ms
         \<and> get_log_messages (perform tables (ApplyCustomFunctionOp unchanged) processor)
             = get_log_messages processor @ ms"
    by simp
  from k r e 1 2 show ?thesis by blast
qed

text \<open>
  Claim C6 as stated fails: \<open>convert_data_types\<close> logs once for each column it is given,
  and with the empty dict, which is what the text field of the form starts with, it
  returns and has logged nothing.
\<close>

theorem convert_nothing_logs_nothing_counterexample:
  "json_loads notebook (textarea_column_types create_widgets) = Inr (JsonDict [])
   \<and> fst (convert_data_types tables (JsonDict []) ''raise'' processor) = Inr ()
   \<and> get_log_messages (snd (convert_data_types tables (JsonDict []) ''raise'' processor))
       = get_log_messages processor"
  by (simp add: convert_data_types_empty get_log_messages_def notebook_def t_json_loads_def
      create_widgets_def)

end
